theory Spec2Isabelle
  imports Complex_Main
begin

section \<open>Tensor values\<close>

text \<open>
  The functions of \<^verbatim>\<open>src/models/clip/model_utils.py\<close> compute on torch tensors of
  floating-point numbers. An element is modelled as a real number or one of the three
  IEEE special values. Addition, multiplication and division of finite values are exact:
  their rounding, overflow and underflow are not part of the model, and zero carries no
  sign (a division of a non-zero finite value by zero takes the sign of the numerator).
  The exponential keeps the range of the format, see \<open>fexp\<close> below.
\<close>

datatype fval = Fin real | PInf | NInf | NaN

fun is_nan :: "fval \<Rightarrow> bool" where
  "is_nan NaN = True"
| "is_nan _ = False"

fun is_inf :: "fval \<Rightarrow> bool" where
  "is_inf PInf = True"
| "is_inf NInf = True"
| "is_inf _ = False"

fun fneg :: "fval \<Rightarrow> fval" where
  "fneg (Fin x) = Fin (- x)"
| "fneg PInf = NInf"
| "fneg NInf = PInf"
| "fneg NaN = NaN"

fun fadd :: "fval \<Rightarrow> fval \<Rightarrow> fval" where
  "fadd (Fin x) (Fin y) = Fin (x + y)"
| "fadd NaN _ = NaN"
| "fadd _ NaN = NaN"
| "fadd PInf NInf = NaN"
| "fadd NInf PInf = NaN"
| "fadd PInf _ = PInf"
| "fadd _ PInf = PInf"
| "fadd NInf _ = NInf"
| "fadd _ NInf = NInf"

definition fsub :: "fval \<Rightarrow> fval \<Rightarrow> fval" where
  "fsub a b = fadd a (fneg b)"

definition inf_of_sign :: "bool \<Rightarrow> fval" where
  "inf_of_sign positive = (if positive then PInf else NInf)"

fun fmul :: "fval \<Rightarrow> fval \<Rightarrow> fval" where
  "fmul (Fin x) (Fin y) = Fin (x * y)"
| "fmul NaN _ = NaN"
| "fmul _ NaN = NaN"
| "fmul (Fin x) PInf = (if x = 0 then NaN else inf_of_sign (0 < x))"
| "fmul (Fin x) NInf = (if x = 0 then NaN else inf_of_sign (x < 0))"
| "fmul PInf (Fin y) = (if y = 0 then NaN else inf_of_sign (0 < y))"
| "fmul NInf (Fin y) = (if y = 0 then NaN else inf_of_sign (y < 0))"
| "fmul PInf PInf = PInf"
| "fmul NInf NInf = PInf"
| "fmul PInf NInf = NInf"
| "fmul NInf PInf = NInf"

fun fdiv :: "fval \<Rightarrow> fval \<Rightarrow> fval" where
  "fdiv (Fin x) (Fin y) =
     (if y \<noteq> 0 then Fin (x / y) else if x = 0 then NaN else inf_of_sign (0 < x))"
| "fdiv NaN _ = NaN"
| "fdiv _ NaN = NaN"
| "fdiv (Fin x) PInf = Fin 0"
| "fdiv (Fin x) NInf = Fin 0"
| "fdiv PInf (Fin y) = inf_of_sign (0 \<le> y)"
| "fdiv NInf (Fin y) = inf_of_sign (y < 0)"
| "fdiv PInf PInf = NaN"
| "fdiv PInf NInf = NaN"
| "fdiv NInf PInf = NaN"
| "fdiv NInf NInf = NaN"

text \<open>
  \<^verbatim>\<open>torch.exp\<close> in the default format of torch tensors, 32-bit floating point. The
  smallest positive number of the format is 2 to the power -149: an exact value of at
  most half of it, \<open>exp_underflow\<close>, is returned as 0. The largest number of the format
  is \<open>2 ^ 128 - 2 ^ 104\<close>: an exact value of at least \<open>exp_overflow\<close>, half way from
  there to \<open>2 ^ 128\<close>, is returned as Inf. Between the two the model keeps the exact
  value.
\<close>

definition exp_underflow :: real where
  "exp_underflow = 1 / 2 ^ 150"

definition exp_overflow :: real where
  "exp_overflow = 2 ^ 128 - 2 ^ 103"

fun fexp :: "fval \<Rightarrow> fval" where
  "fexp (Fin x) =
     (if exp x \<le> exp_underflow then Fin 0
      else if exp_overflow \<le> exp x then PInf
      else Fin (exp x))"
| "fexp PInf = PInf"
| "fexp NInf = Fin 0"
| "fexp NaN = NaN"

text \<open>The sum of the elements of a one-dimensional tensor.\<close>

definition fsum :: "fval list \<Rightarrow> fval" where
  "fsum xs = foldr fadd xs (Fin 0)"

text \<open>
  The exceptions the modelled code can raise. \<open>ValueError\<close> carries the two values
  interpolated into its message, \<^verbatim>\<open>'reduction' parameter must be one of {REDUCTIONS}.
  {reduction} given.\<close>: the set \<open>REDUCTIONS\<close> and the offending argument.
  \<open>RuntimeError\<close> is torch's error for shapes that cannot be broadcast or multiplied,
  \<open>IndexError\<close> its error for a dimension out of range or an empty reduction.
\<close>

datatype error =
    AssertionError
  | ZeroDivisionError
  | RuntimeError
  | IndexError
  | ValueError "string set" string

definition ebind :: "error + 'a \<Rightarrow> ('a \<Rightarrow> error + 'b) \<Rightarrow> error + 'b" where
  "ebind x f = (case x of Inl e \<Rightarrow> Inl e | Inr v \<Rightarrow> f v)"

text \<open>
  A two-dimensional tensor has a shape and its elements, stored row by row; \<open>at2\<close>
  reads an element and \<open>mk2\<close> builds the tensor of a given shape from its elements.
  Every operation below reads its arguments through \<open>at2\<close> at indices within the
  shape and builds its result with \<open>mk2\<close>. A one-dimensional tensor is the list of
  its elements.
\<close>

datatype tensor2 = Tensor2 (nrows: nat) (ncols: nat) (elems: "fval list list")

type_synonym tensor1 = "fval list"

definition at2 :: "tensor2 \<Rightarrow> nat \<Rightarrow> nat \<Rightarrow> fval" where
  "at2 T i j = elems T ! i ! j"

definition mk2 :: "nat \<Rightarrow> nat \<Rightarrow> (nat \<Rightarrow> nat \<Rightarrow> fval) \<Rightarrow> tensor2" where
  "mk2 m n f = Tensor2 m n (map (\<lambda>i. map (f i) [0..<n]) [0..<m])"

text \<open>Row \<open>i\<close> and column \<open>j\<close> of a tensor, as lists.\<close>

definition row2 :: "tensor2 \<Rightarrow> nat \<Rightarrow> fval list" where
  "row2 T i = map (at2 T i) [0..<ncols T]"

definition col2 :: "tensor2 \<Rightarrow> nat \<Rightarrow> fval list" where
  "col2 T j = map (\<lambda>i. at2 T i j) [0..<nrows T]"

subsection \<open>The torch operations used by the code\<close>

text \<open>Elementwise application, and the operations with a Python scalar.\<close>

definition tmap :: "(fval \<Rightarrow> fval) \<Rightarrow> tensor2 \<Rightarrow> tensor2" where
  "tmap f T = mk2 (nrows T) (ncols T) (\<lambda>i j. f (at2 T i j))"

definition torch_exp :: "tensor2 \<Rightarrow> tensor2" where
  "torch_exp T = tmap fexp T"

definition tneg :: "tensor2 \<Rightarrow> tensor2" where
  "tneg T = tmap fneg T"

definition smul :: "tensor2 \<Rightarrow> fval \<Rightarrow> tensor2" where
  "smul T c = tmap (\<lambda>x. fmul x c) T"

definition sdiv :: "tensor2 \<Rightarrow> fval \<Rightarrow> tensor2" where
  "sdiv T c = tmap (\<lambda>x. fdiv x c) T"

definition ssub :: "tensor2 \<Rightarrow> fval \<Rightarrow> tensor2" where
  "ssub T c = tmap (\<lambda>x. fsub x c) T"

text \<open>
  Broadcasting of two sizes along one dimension: equal sizes, or one of them is 1.
\<close>

definition bdim :: "nat \<Rightarrow> nat \<Rightarrow> nat option" where
  "bdim a b = (if a = b then Some a else if a = 1 then Some b
               else if b = 1 then Some a else None)"

text \<open>Reading element \<open>(i, j)\<close> of a tensor expanded to a broadcast shape.\<close>

definition bat :: "tensor2 \<Rightarrow> nat \<Rightarrow> nat \<Rightarrow> fval" where
  "bat T i j = at2 T (if nrows T = 1 then 0 else i) (if ncols T = 1 then 0 else j)"

text \<open>
  A binary elementwise operation \<^verbatim>\<open>A op B\<close> with broadcasting, and its in-place
  form \<^verbatim>\<open>A op= B\<close>, which also requires the result to have the shape of \<open>A\<close>.
\<close>

definition bop :: "(fval \<Rightarrow> fval \<Rightarrow> fval) \<Rightarrow> tensor2 \<Rightarrow> tensor2 \<Rightarrow> error + tensor2" where
  "bop f A B =
     (case (bdim (nrows A) (nrows B), bdim (ncols A) (ncols B)) of
        (Some m, Some n) \<Rightarrow> Inr (mk2 m n (\<lambda>i j. f (bat A i j) (bat B i j)))
      | _ \<Rightarrow> Inl RuntimeError)"

definition iop :: "(fval \<Rightarrow> fval \<Rightarrow> fval) \<Rightarrow> tensor2 \<Rightarrow> tensor2 \<Rightarrow> error + tensor2" where
  "iop f A B =
     (case (bdim (nrows A) (nrows B), bdim (ncols A) (ncols B)) of
        (Some m, Some n) \<Rightarrow>
          (if m = nrows A \<and> n = ncols A
           then Inr (mk2 m n (\<lambda>i j. f (bat A i j) (bat B i j)))
           else Inl RuntimeError)
      | _ \<Rightarrow> Inl RuntimeError)"

text \<open>
  A dimension index \<open>d\<close> of a tensor of rank \<open>r\<close> lies between \<open>-r\<close> and
  \<open>r - 1\<close>; a negative index counts from the end, so that \<open>d\<close> names axis
  \<open>d + r\<close>. Every other index raises.
\<close>

definition resolve_dim :: "nat \<Rightarrow> int \<Rightarrow> error + nat" where
  "resolve_dim rank d =
     (if - int rank \<le> d \<and> d < int rank
      then Inr (nat (if d < 0 then d + int rank else d))
      else Inl IndexError)"

text \<open>\<^verbatim>\<open>T.sum(dim=d, keepdim=True)\<close> for a tensor of rank 2.\<close>

definition sum_axis :: "nat \<Rightarrow> tensor2 \<Rightarrow> tensor2" where
  "sum_axis a T =
     (if a = 0 then mk2 1 (ncols T) (\<lambda>i j. fsum (col2 T j))
      else mk2 (nrows T) 1 (\<lambda>i j. fsum (row2 T i)))"

definition torch_sum :: "int \<Rightarrow> tensor2 \<Rightarrow> error + tensor2" where
  "torch_sum d T = ebind (resolve_dim 2 d) (\<lambda>a. Inr (sum_axis a T))"

text \<open>\<^verbatim>\<open>T.sum(dim=[d1, d2], keepdim=True)\<close>: the listed dimensions are summed in turn.\<close>

fun torch_sums :: "int list \<Rightarrow> tensor2 \<Rightarrow> error + tensor2" where
  "torch_sums [] T = Inr T"
| "torch_sums (d # ds) T = ebind (torch_sum d T) (torch_sums ds)"

text \<open>\<^verbatim>\<open>T.t()\<close>, \<^verbatim>\<open>torch.matmul\<close> on two-dimensional tensors and \<^verbatim>\<open>torch.eye\<close>.\<close>

definition torch_t :: "tensor2 \<Rightarrow> tensor2" where
  "torch_t T = mk2 (ncols T) (nrows T) (\<lambda>i j. at2 T j i)"

definition dot :: "fval list \<Rightarrow> fval list \<Rightarrow> fval" where
  "dot xs ys = fsum (map2 fmul xs ys)"

definition torch_matmul :: "tensor2 \<Rightarrow> tensor2 \<Rightarrow> error + tensor2" where
  "torch_matmul A B =
     (if ncols A = nrows B
      then Inr (mk2 (nrows A) (ncols B) (\<lambda>i j. dot (row2 A i) (col2 B j)))
      else Inl RuntimeError)"

definition torch_eye :: "nat \<Rightarrow> nat \<Rightarrow> tensor2" where
  "torch_eye m n = mk2 m n (\<lambda>i j. if i = j then Fin 1 else Fin 0)"

section \<open>compute\_similarities\<close>

definition compute_similarities ::
  "tensor2 \<Rightarrow> tensor2 \<Rightarrow> error + (tensor2 \<times> tensor2 \<times> tensor2 \<times> tensor2)" where
  "compute_similarities i_emb t_emb =
     ebind (torch_matmul i_emb (torch_t i_emb)) (\<lambda>sim_ii.
     ebind (torch_matmul t_emb (torch_t t_emb)) (\<lambda>sim_tt.
     ebind (torch_matmul i_emb (torch_t t_emb)) (\<lambda>sim_it.
     ebind (torch_matmul t_emb (torch_t i_emb)) (\<lambda>sim_ti.
     Inr (sim_ii, sim_tt, sim_it, sim_ti)))))"

section \<open>sinkhorn\<close>

text \<open>
  \<^verbatim>\<open>_has_nan_or_inf(x)\<close>: \<^verbatim>\<open>torch.isnan(x).any() or torch.isinf(x).any()\<close>.
\<close>

definition tensor_any :: "(fval \<Rightarrow> bool) \<Rightarrow> tensor2 \<Rightarrow> bool" where
  "tensor_any p T \<longleftrightarrow>
     list_ex (\<lambda>i. list_ex (\<lambda>j. p (at2 T i j)) [0..<ncols T]) [0..<nrows T]"

definition has_nan_or_inf :: "tensor2 \<Rightarrow> bool" where
  "has_nan_or_inf x \<longleftrightarrow> tensor_any is_nan x \<or> tensor_any is_inf x"

text \<open>
  A marginal of shape \<open>(K)\<close> divided by its own sum (\<^verbatim>\<open>p / p.sum(dim=-1,
  keepdim=True)\<close>), and the two \<^verbatim>\<open>unsqueeze\<close> calls: \<^verbatim>\<open>unsqueeze(-1)\<close> gives shape
  \<open>(K, 1)\<close>, \<^verbatim>\<open>unsqueeze(-2)\<close> gives shape \<open>(1, K)\<close>.
\<close>

definition normalize1 :: "tensor1 \<Rightarrow> tensor1" where
  "normalize1 p = map (\<lambda>v. fdiv v (fsum p)) p"

definition unsqueeze_last :: "tensor1 \<Rightarrow> tensor2" where
  "unsqueeze_last p = mk2 (length p) 1 (\<lambda>i j. p ! i)"

definition unsqueeze_first :: "tensor1 \<Rightarrow> tensor2" where
  "unsqueeze_first p = mk2 1 (length p) (\<lambda>i j. p ! j)"

text \<open>
  After lines 29 to 41 a target marginal is either a tensor or the Python float
  \<^verbatim>\<open>1 / m\<close>; the division of two Python integers raises on a zero divisor.
\<close>

datatype operand = PyFloat fval | Tens tensor2

definition py_div :: "nat \<Rightarrow> nat \<Rightarrow> error + fval" where
  "py_div a b = (if b = 0 then Inl ZeroDivisionError else Inr (Fin (real a / real b)))"

definition imul :: "tensor2 \<Rightarrow> operand \<Rightarrow> error + tensor2" where
  "imul q p = (case p of PyFloat c \<Rightarrow> Inr (smul q c) | Tens B \<Rightarrow> iop fmul q B)"

text \<open>The loop of lines 43 to 49, run \<open>k\<close> times.\<close>

fun sinkhorn_loop :: "nat \<Rightarrow> operand \<Rightarrow> operand \<Rightarrow> tensor2 \<Rightarrow> error + tensor2" where
  "sinkhorn_loop 0 r_prob c_prob q = Inr q"
| "sinkhorn_loop (Suc k) r_prob c_prob q =
     ebind (torch_sum (- 1) q) (\<lambda>s.
     ebind (iop fdiv q s) (\<lambda>q.
     ebind (imul q r_prob) (\<lambda>q.
     ebind (torch_sum (- 2) q) (\<lambda>s.
     ebind (iop fdiv q s) (\<lambda>q.
     ebind (imul q c_prob) (\<lambda>q.
     sinkhorn_loop k r_prob c_prob q))))))"

text \<open>
  Lines 25 to 49: the value of \<open>q\<close> when the loop has ended. \<^verbatim>\<open>range(niter)\<close> is
  empty for a negative \<open>niter\<close>.
\<close>

definition sinkhorn_iterate ::
  "tensor2 \<Rightarrow> fval \<Rightarrow> int \<Rightarrow> tensor1 option \<Rightarrow> tensor1 option \<Rightarrow> error + tensor2" where
  "sinkhorn_iterate cost_mat eps niter r_prob c_prob =
     (let q = torch_exp (sdiv (tneg cost_mat) eps) in
      ebind (torch_sums [- 2, - 1] q) (\<lambda>s.
      ebind (bop fdiv q s) (\<lambda>q.
      let m = nrows q; n = ncols q in
      ebind (case r_prob of
               Some r \<Rightarrow>
                 (let r' = unsqueeze_last (normalize1 r)
                  in if has_nan_or_inf r' then Inl AssertionError else Inr (Tens r'))
             | None \<Rightarrow> ebind (py_div 1 m) (\<lambda>x. Inr (PyFloat x))) (\<lambda>r_prob.
      ebind (case c_prob of
               Some c \<Rightarrow>
                 (let c' = unsqueeze_first (normalize1 c)
                  in if has_nan_or_inf c' then Inl AssertionError else Inr (Tens c'))
             | None \<Rightarrow> ebind (py_div 1 n) (\<lambda>x. Inr (PyFloat x))) (\<lambda>c_prob.
      sinkhorn_loop (nat niter) r_prob c_prob q)))))"

text \<open>Line 50: \<^verbatim>\<open>return q / q.sum(dim=1, keepdim=True)\<close>.\<close>

definition sinkhorn ::
  "tensor2 \<Rightarrow> fval \<Rightarrow> int \<Rightarrow> tensor1 option \<Rightarrow> tensor1 option \<Rightarrow> error + tensor2" where
  "sinkhorn cost_mat eps niter r_prob c_prob =
     ebind (sinkhorn_iterate cost_mat eps niter r_prob c_prob) (\<lambda>q.
     ebind (torch_sum 1 q) (\<lambda>s. bop fdiv q s))"

section \<open>compute\_teacher\_targets\<close>

definition compute_teacher_targets ::
  "tensor2 \<Rightarrow> tensor2 \<Rightarrow> fval \<Rightarrow> fval \<Rightarrow> fval \<Rightarrow> int \<Rightarrow> fval \<Rightarrow> bool
     \<Rightarrow> error + (tensor2 \<times> tensor2)" where
  "compute_teacher_targets teacher_images_embs teacher_text_embs ii_coeff tt_coeff
       sinkhorn_lambda sinkhorn_iter remove_diag sigmoid_target =
     ebind (compute_similarities teacher_images_embs teacher_text_embs)
       (\<lambda>(sim_ii, sim_tt, sim_it, sim_ti).
     let diag = smul (smul (torch_eye (nrows sim_ii) (ncols sim_ii)) remove_diag) (Fin 100) in
     ebind (bop fsub sim_ii diag) (\<lambda>d_ii. let sim_ii = smul d_ii ii_coeff in
     ebind (bop fsub sim_tt diag) (\<lambda>d_tt. let sim_tt = smul d_tt tt_coeff in
     ebind (bop fadd sim_ii sim_tt) (\<lambda>s.
     ebind (bop fadd s sim_it) (\<lambda>s_it. let images_cost_mat = tneg s_it in
     ebind (bop fadd s sim_ti) (\<lambda>s_ti. let text_cost_mat = tneg s_ti in
     ebind (sinkhorn images_cost_mat sinkhorn_lambda sinkhorn_iter None None)
       (\<lambda>images_target_prob.
     ebind (sinkhorn text_cost_mat sinkhorn_lambda sinkhorn_iter None None)
       (\<lambda>text_target_prob.
     if sigmoid_target
     then
       ebind (torch_sum 1 images_target_prob) (\<lambda>s_i.
       ebind (iop fdiv images_target_prob s_i) (\<lambda>images_target_prob.
       ebind (torch_sum 1 text_target_prob) (\<lambda>s_t.
       ebind (iop fdiv text_target_prob s_t) (\<lambda>text_target_prob.
       let images_target_prob = ssub (smul images_target_prob (Fin 2)) (Fin 1);
           text_target_prob = ssub (smul text_target_prob (Fin 2)) (Fin 1)
       in Inr (images_target_prob, text_target_prob)))))
     else
       ebind (torch_sum 1 images_target_prob) (\<lambda>s_i.
       ebind (iop fdiv images_target_prob s_i) (\<lambda>images_target_prob.
       ebind (torch_sum 1 text_target_prob) (\<lambda>s_t.
       ebind (iop fdiv text_target_prob s_t) (\<lambda>text_target_prob.
       Inr (images_target_prob, text_target_prob)))))))))))))"

section \<open>compute\_mse\_similarities\<close>

definition REDUCTIONS :: "string set" where
  "REDUCTIONS = {''mean'', ''average'', ''avg'', ''sum'', ''add'', ''none''}"

text \<open>
  \<^verbatim>\<open>torch.mean\<close> of a one-dimensional tensor, and \<^verbatim>\<open>torch.nn.MSELoss()\<close>: the two
  arguments are broadcast against each other and the squared differences averaged over
  all elements.
\<close>

definition torch_mean :: "tensor1 \<Rightarrow> fval" where
  "torch_mean xs = fdiv (fsum xs) (Fin (real (length xs)))"

definition flatten :: "tensor2 \<Rightarrow> tensor1" where
  "flatten T = concat (map (row2 T) [0..<nrows T])"

definition mse_loss :: "tensor2 \<Rightarrow> tensor2 \<Rightarrow> error + fval" where
  "mse_loss input target =
     ebind (bop fsub input target) (\<lambda>d. Inr (torch_mean (flatten (tmap (\<lambda>x. fmul x x) d))))"

text \<open>
  The result is a tensor of rank 0 or, for \<^verbatim>\<open>"none"\<close>, the stacked tensor itself.
  The source assigns to its parameter \<^verbatim>\<open>reduction\<close> in line 170; the argument as
  passed is \<open>reduction0\<close> here.
\<close>

datatype mse_result = Scalar fval | Stacked tensor1

definition compute_mse_similarities ::
  "tensor2 \<Rightarrow> tensor2 \<Rightarrow> tensor2 \<Rightarrow> tensor2 \<Rightarrow> string \<Rightarrow> error + mse_result" where
  "compute_mse_similarities image_image_similarities image_text_similarities
       text_text_similarities_clip text_text_similarities_st reduction0 =
     (if reduction0 \<notin> REDUCTIONS then Inl (ValueError REDUCTIONS reduction0)
      else
        let reduction = (if reduction0 = ''average'' then ''mean'' else reduction0) in
        ebind (mse_loss image_image_similarities text_text_similarities_st) (\<lambda>ii_mse.
        ebind (mse_loss image_text_similarities text_text_similarities_st) (\<lambda>it_mse.
        ebind (mse_loss text_text_similarities_clip text_text_similarities_st) (\<lambda>tt_mse.
        let mse_tensor = [ii_mse, it_mse, tt_mse] in
        if reduction = ''mean'' \<or> reduction = ''average'' \<or> reduction = ''avg''
        then Inr (Scalar (torch_mean mse_tensor))
        else if reduction = ''sum'' \<or> reduction = ''add''
        then Inr (Scalar (torch_mean mse_tensor))
        else Inr (Stacked mse_tensor)))))"

section \<open>compute\_accuracy\<close>

text \<open>
  \<^verbatim>\<open>torch.argmax\<close> along a dimension returns, for each slice, the index of its first
  maximal element, a NaN counting as larger than every number; it raises when the
  reduced dimension is empty.
\<close>

fun fgt :: "fval \<Rightarrow> fval \<Rightarrow> bool" where
  "fgt NaN b = (\<not> is_nan b)"
| "fgt a NaN = False"
| "fgt PInf b = (b \<noteq> PInf)"
| "fgt NInf b = False"
| "fgt (Fin x) PInf = False"
| "fgt (Fin x) NInf = True"
| "fgt (Fin x) (Fin y) = (y < x)"

fun argmax_from :: "nat \<Rightarrow> fval \<Rightarrow> nat \<Rightarrow> fval list \<Rightarrow> nat" where
  "argmax_from best v k [] = best"
| "argmax_from best v k (x # xs) =
     (if fgt x v then argmax_from k x (Suc k) xs else argmax_from best v (Suc k) xs)"

definition argmax1 :: "fval list \<Rightarrow> nat" where
  "argmax1 xs = (case xs of [] \<Rightarrow> 0 | x # rest \<Rightarrow> argmax_from 0 x 1 rest)"

definition torch_argmax :: "tensor2 \<Rightarrow> int \<Rightarrow> error + nat list" where
  "torch_argmax T d =
     ebind (resolve_dim 2 d) (\<lambda>a.
       if a = 0
       then (if nrows T = 0 then Inl IndexError
             else Inr (map (\<lambda>j. argmax1 (col2 T j)) [0..<ncols T]))
       else (if ncols T = 0 then Inl IndexError
             else Inr (map (\<lambda>i. argmax1 (row2 T i)) [0..<nrows T])))"

text \<open>
  \<^verbatim>\<open>(xs == ys).sum()\<close> for two one-dimensional integer tensors, with broadcasting of
  a tensor of length 1.
\<close>

definition eq_count :: "nat list \<Rightarrow> nat list \<Rightarrow> error + nat" where
  "eq_count xs ys =
     (case bdim (length xs) (length ys) of
        None \<Rightarrow> Inl RuntimeError
      | Some n \<Rightarrow>
          Inr (length (filter (\<lambda>k. xs ! (if length xs = 1 then 0 else k)
                                    = ys ! (if length ys = 1 then 0 else k)) [0..<n])))"

definition compute_accuracy :: "tensor2 \<Rightarrow> int \<Rightarrow> error + fval" where
  "compute_accuracy images_logits batch_size =
     (let ground_truth = [0..<nrows images_logits] in
      ebind (torch_argmax images_logits 1) (\<lambda>am1.
      ebind (eq_count am1 ground_truth) (\<lambda>acc_i.
      ebind (torch_argmax images_logits 0) (\<lambda>am0.
      ebind (eq_count am0 ground_truth) (\<lambda>acc_t.
      Inr (fdiv (fdiv (Fin (real (acc_i + acc_t))) (Fin 2)) (Fin (of_int batch_size))))))))"

section \<open>The specification's reading of the Sinkhorn iterate\<close>

text \<open>
  These definitions follow the words of the specification (section 4.2), element by
  element, and are compared with \<open>sinkhorn_iterate\<close> below. The total mass is the sum
  of all elements; a row step divides each row by its row sum and multiplies it by the
  target row marginal; a column step does the same with columns.
\<close>

definition row_sum :: "tensor2 \<Rightarrow> nat \<Rightarrow> fval" where
  "row_sum T i = fsum (row2 T i)"

definition col_sum :: "tensor2 \<Rightarrow> nat \<Rightarrow> fval" where
  "col_sum T j = fsum (col2 T j)"

definition total_sum :: "tensor2 \<Rightarrow> fval" where
  "total_sum T = fsum (map (row_sum T) [0..<nrows T])"

definition spec_q0 :: "tensor2 \<Rightarrow> fval \<Rightarrow> tensor2" where
  "spec_q0 cost_matrix eps =
     (let e = mk2 (nrows cost_matrix) (ncols cost_matrix)
                (\<lambda>i j. fexp (fdiv (fneg (at2 cost_matrix i j)) eps))
      in mk2 (nrows cost_matrix) (ncols cost_matrix)
           (\<lambda>i j. fdiv (at2 e i j) (total_sum e)))"

definition spec_marginal :: "nat \<Rightarrow> tensor1 option \<Rightarrow> nat \<Rightarrow> fval" where
  "spec_marginal sz marginal k =
     (case marginal of
        None \<Rightarrow> Fin (1 / real sz)
      | Some p \<Rightarrow> fdiv (p ! k) (fsum p))"

definition spec_row_step :: "(nat \<Rightarrow> fval) \<Rightarrow> tensor2 \<Rightarrow> tensor2" where
  "spec_row_step r q =
     mk2 (nrows q) (ncols q) (\<lambda>i j. fmul (fdiv (at2 q i j) (row_sum q i)) (r i))"

definition spec_col_step :: "(nat \<Rightarrow> fval) \<Rightarrow> tensor2 \<Rightarrow> tensor2" where
  "spec_col_step c q =
     mk2 (nrows q) (ncols q) (\<lambda>i j. fmul (fdiv (at2 q i j) (col_sum q j)) (c j))"

definition spec_iterate ::
  "tensor2 \<Rightarrow> fval \<Rightarrow> nat \<Rightarrow> tensor1 option \<Rightarrow> tensor1 option \<Rightarrow> tensor2" where
  "spec_iterate cost_matrix eps n_iters row_marginal col_marginal =
     ((\<lambda>q. spec_col_step (spec_marginal (ncols cost_matrix) col_marginal)
             (spec_row_step (spec_marginal (nrows cost_matrix) row_marginal) q)) ^^ n_iters)
       (spec_q0 cost_matrix eps)"

text \<open>Dividing each row by its own sum.\<close>

definition row_normalize :: "tensor2 \<Rightarrow> tensor2" where
  "row_normalize q = mk2 (nrows q) (ncols q) (\<lambda>i j. fdiv (at2 q i j) (row_sum q i))"

subsection \<open>Predicates on tensors\<close>

definition finite_tensor :: "tensor2 \<Rightarrow> bool" where
  "finite_tensor T \<longleftrightarrow> (\<forall>i<nrows T. \<forall>j<ncols T. \<exists>x. at2 T i j = Fin x)"

definition positive_tensor :: "tensor2 \<Rightarrow> bool" where
  "positive_tensor T \<longleftrightarrow> (\<forall>i<nrows T. \<forall>j<ncols T. \<exists>x. 0 < x \<and> at2 T i j = Fin x)"

definition entries_between :: "real \<Rightarrow> real \<Rightarrow> tensor2 \<Rightarrow> bool" where
  "entries_between lo hi T \<longleftrightarrow>
     (\<forall>i<nrows T. \<forall>j<ncols T. \<exists>x. lo \<le> x \<and> x \<le> hi \<and> at2 T i j = Fin x)"

text \<open>A value that is not negative: a finite number from 0 on, \<open>+\<close>Inf or NaN.\<close>

definition not_negative :: "fval \<Rightarrow> bool" where
  "not_negative v \<longleftrightarrow> (case v of Fin x \<Rightarrow> 0 \<le> x | PInf \<Rightarrow> True | NInf \<Rightarrow> False | NaN \<Rightarrow> True)"

definition not_negative_tensor :: "tensor2 \<Rightarrow> bool" where
  "not_negative_tensor T \<longleftrightarrow> (\<forall>i<nrows T. \<forall>j<ncols T. not_negative (at2 T i j))"

definition rows_sum_to_one :: "tensor2 \<Rightarrow> bool" where
  "rows_sum_to_one T \<longleftrightarrow> (\<forall>i<nrows T. row_sum T i = Fin 1)"

text \<open>The real number a finite value stands for.\<close>

definition val :: "fval \<Rightarrow> real" where
  "val v = (case v of Fin x \<Rightarrow> x | _ \<Rightarrow> 0)"

text \<open>
  A marginal argument the loop can run with: when it is not supplied the matching size of
  the cost matrix is positive (\<^verbatim>\<open>1 / m\<close> is defined); when it is supplied it has
  that size and its normalized form holds no NaN and no Inf.
\<close>

definition marginal_admissible :: "nat \<Rightarrow> tensor1 option \<Rightarrow> bool" where
  "marginal_admissible sz marginal \<longleftrightarrow>
     (case marginal of
        None \<Rightarrow> 0 < sz
      | Some p \<Rightarrow> length p = sz \<and> \<not> list_ex is_nan (normalize1 p)
                    \<and> \<not> list_ex is_inf (normalize1 p))"

section \<open>The specification's reading of the similarity matrices\<close>

text \<open>
  The product \<open>A \<cdot> B\<^sup>T\<close> of the specification (section 4.1): element \<open>(i, j)\<close> is
  the sum over \<open>k\<close> of \<open>A[i][k] * B[j][k]\<close>.
\<close>

definition spec_gram :: "tensor2 \<Rightarrow> tensor2 \<Rightarrow> tensor2" where
  "spec_gram A B = mk2 (nrows A) (nrows B)
     (\<lambda>i j. fsum (map (\<lambda>k. fmul (at2 A i k) (at2 B j k)) [0..<ncols A]))"

definition symmetric2 :: "tensor2 \<Rightarrow> bool" where
  "symmetric2 T \<longleftrightarrow>
     nrows T = ncols T \<and> (\<forall>i<nrows T. \<forall>j<ncols T. at2 T i j = at2 T j i)"

section \<open>The specification's reading of the reducer and of the accuracy\<close>

text \<open>
  Two shapes the torch broadcasting rules accept together, the condition under which
  \<^verbatim>\<open>MSELoss\<close> returns.
\<close>

definition broadcastable :: "tensor2 \<Rightarrow> tensor2 \<Rightarrow> bool" where
  "broadcastable A B \<longleftrightarrow>
     bdim (nrows A) (nrows B) \<noteq> None \<and> bdim (ncols A) (ncols B) \<noteq> None"

text \<open>
  The counts of the specification (section 4.5): the rows whose argmax is the row index,
  and the columns whose argmax over the rows is the column index.
\<close>

definition spec_acc_i :: "tensor2 \<Rightarrow> nat" where
  "spec_acc_i logits = card {i. i < nrows logits \<and> argmax1 (row2 logits i) = i}"

definition spec_acc_t :: "tensor2 \<Rightarrow> nat" where
  "spec_acc_t logits = card {j. j < ncols logits \<and> argmax1 (col2 logits j) = j}"

section \<open>Basic facts about the tensor operations\<close>

lemma ebind_Inr [simp]: "ebind (Inr v) f = f v"
  by (simp add: ebind_def)
lemma ebind_Inl [simp]: "ebind (Inl e) f = Inl e"
  by (simp add: ebind_def)

lemma nrows_mk2 [simp]: "nrows (mk2 m n f) = m"
  by (simp add: mk2_def)
lemma ncols_mk2 [simp]: "ncols (mk2 m n f) = n"
  by (simp add: mk2_def)
lemma at2_mk2 [simp]: "i < m \<Longrightarrow> j < n \<Longrightarrow> at2 (mk2 m n f) i j = f i j"
  by (simp add: mk2_def at2_def)
lemma mk2_eqI: "(\<And>i j. i < m \<Longrightarrow> j < n \<Longrightarrow> f i j = g i j) \<Longrightarrow> mk2 m n f = mk2 m n g"
  by (simp add: mk2_def)
lemma row2_mk2: "i < m \<Longrightarrow> row2 (mk2 m n f) i = map (f i) [0..<n]"
  by (simp add: row2_def)
lemma col2_mk2: "j < n \<Longrightarrow> col2 (mk2 m n f) j = map (\<lambda>i. f i j) [0..<m]"
  by (simp add: col2_def)

lemma bdim_same [simp]: "bdim a a = Some a"
  by (simp add: bdim_def)
lemma bdim_one_right [simp]: "bdim a 1 = Some a" "bdim a (Suc 0) = Some a"
  by (simp_all add: bdim_def)
lemma bdim_one_left [simp]: "bdim 1 a = Some a" "bdim (Suc 0) a = Some a"
  by (auto simp add: bdim_def)

lemma bat_self: "i < nrows T \<Longrightarrow> j < ncols T \<Longrightarrow> bat T i j = at2 T i j"
  by (auto simp add: bat_def)
lemma bat_mk2_col: "i < m \<Longrightarrow> bat (mk2 m (Suc 0) f) i j = f i 0"
  by (auto simp add: bat_def)
lemma bat_mk2_row: "j < n \<Longrightarrow> bat (mk2 (Suc 0) n f) i j = f 0 j"
  by (auto simp add: bat_def)
lemma bat_mk2_one: "bat (mk2 (Suc 0) (Suc 0) f) i j = f 0 0"
  by (auto simp add: bat_def)

subsection \<open>Sums of tensor values\<close>

lemma fadd_commute: "fadd a b = fadd b a"
  by (cases a; cases b) simp_all
lemma fadd_assoc: "fadd (fadd a b) c = fadd a (fadd b c)"
  by (cases a; cases b; cases c) simp_all
lemma fadd_zero_right [simp]: "fadd a (Fin 0) = a"
  by (cases a) simp_all
lemma fadd_zero_left [simp]: "fadd (Fin 0) a = a"
  by (cases a) simp_all
lemma fmul_commute: "fmul a b = fmul b a"
  by (cases a; cases b) (simp_all add: mult.commute)

lemma fsum_Nil [simp]: "fsum [] = Fin 0"
  by (simp add: fsum_def)
lemma fsum_Cons [simp]: "fsum (x # xs) = fadd x (fsum xs)"
  by (simp add: fsum_def)
lemma fsum_append: "fsum (xs @ ys) = fadd (fsum xs) (fsum ys)"
  by (induction xs) (simp_all add: fadd_assoc)
lemma fsum_map_zero: "fsum (map (\<lambda>x. Fin 0) xs) = Fin 0"
  by (induction xs) simp_all
lemma fadd_left_commute: "fadd a (fadd b c) = fadd b (fadd a c)"
  by (metis fadd_assoc fadd_commute)
lemma fsum_map_fadd:
  "fsum (map (\<lambda>x. fadd (f x) (g x)) xs) = fadd (fsum (map f xs)) (fsum (map g xs))"
  by (induction xs) (simp_all add: fadd_assoc fadd_left_commute)
lemma fsum_swap:
  "fsum (map (\<lambda>j. fsum (map (\<lambda>i. f i j) xs)) ys) = fsum (map (\<lambda>i. fsum (map (f i) ys)) xs)"
  by (induction xs) (simp_all add: fsum_map_zero fsum_map_fadd)
lemma fsum_Fin:
  "(\<And>x. x \<in> set xs \<Longrightarrow> f x = Fin (g x)) \<Longrightarrow> fsum (map f xs) = Fin (sum_list (map g xs))"
  by (induction xs) simp_all

subsection \<open>Sums along an axis and broadcasting\<close>

lemma torch_sum_simps [simp]:
  "torch_sum (- 1) q = Inr (sum_axis (Suc 0) q)"
  "torch_sum 1 q = Inr (sum_axis (Suc 0) q)"
  "torch_sum (- 2) q = Inr (sum_axis 0 q)"
  "torch_sum 0 q = Inr (sum_axis 0 q)"
  by (simp_all add: torch_sum_def resolve_dim_def)

lemma sum_axis_1: "sum_axis (Suc 0) q = mk2 (nrows q) (Suc 0) (\<lambda>i j. row_sum q i)"
  by (simp add: sum_axis_def row_sum_def)
lemma sum_axis_0: "sum_axis 0 q = mk2 (Suc 0) (ncols q) (\<lambda>i j. col_sum q j)"
  by (simp add: sum_axis_def col_sum_def)

lemma iop_col:
  "iop f q (mk2 (nrows q) (Suc 0) g) = Inr (mk2 (nrows q) (ncols q) (\<lambda>i j. f (at2 q i j) (g i 0)))"
  by (auto simp add: iop_def bat_self bat_mk2_col intro!: mk2_eqI)
lemma bop_col:
  "bop f q (mk2 (nrows q) (Suc 0) g) = Inr (mk2 (nrows q) (ncols q) (\<lambda>i j. f (at2 q i j) (g i 0)))"
  by (auto simp add: bop_def bat_self bat_mk2_col intro!: mk2_eqI)
lemma iop_row:
  "iop f q (mk2 (Suc 0) (ncols q) g) = Inr (mk2 (nrows q) (ncols q) (\<lambda>i j. f (at2 q i j) (g 0 j)))"
  by (auto simp add: iop_def bat_self bat_mk2_row intro!: mk2_eqI)
lemma bop_one:
  "bop f q (mk2 (Suc 0) (Suc 0) g) = Inr (mk2 (nrows q) (ncols q) (\<lambda>i j. f (at2 q i j) (g 0 0)))"
  by (auto simp add: bop_def bat_self bat_mk2_one intro!: mk2_eqI)
lemma bop_same:
  "nrows A = nrows B \<Longrightarrow> ncols A = ncols B \<Longrightarrow>
   bop f A B = Inr (mk2 (nrows A) (ncols A) (\<lambda>i j. f (at2 A i j) (at2 B i j)))"
  by (auto simp add: bop_def bat_self intro!: mk2_eqI)

subsection \<open>The loop of sinkhorn computes the specified iterate\<close>

lemma total_via_cols: "fsum (map (col_sum q) [0..<ncols q]) = total_sum q"
proof -
  have c: "col_sum q = (\<lambda>j. fsum (map (\<lambda>i. at2 q i j) [0..<nrows q]))"
    by (simp add: fun_eq_iff col_sum_def col2_def)
  have r: "row_sum q = (\<lambda>i. fsum (map (at2 q i) [0..<ncols q]))"
    by (simp add: fun_eq_iff row_sum_def row2_def)
  show ?thesis
    unfolding total_sum_def c r by (rule fsum_swap)
qed

lemma torch_sums_both:
  "torch_sums [- 2, - 1] q = Inr (mk2 (Suc 0) (Suc 0) (\<lambda>i j. total_sum q))"
proof -
  have "row_sum (mk2 (Suc 0) (ncols q) (\<lambda>i. col_sum q)) 0 = total_sum q"
    by (simp add: row_sum_def row2_mk2 total_via_cols)
  then show ?thesis
    by (auto simp add: sum_axis_0 sum_axis_1 intro!: mk2_eqI)
qed

lemma tmap_tmap: "tmap f (tmap g T) = tmap (\<lambda>x. f (g x)) T"
  by (auto simp add: tmap_def intro!: mk2_eqI)

lemma torch_exp_cost:
  "torch_exp (sdiv (tneg cost_mat) eps) =
     mk2 (nrows cost_mat) (ncols cost_mat) (\<lambda>i j. fexp (fdiv (fneg (at2 cost_mat i j)) eps))"
  by (simp add: torch_exp_def sdiv_def tneg_def tmap_tmap) (simp add: tmap_def)

lemma sinkhorn_init:
  "bop fdiv (torch_exp (sdiv (tneg cost_mat) eps))
     (mk2 (Suc 0) (Suc 0) (\<lambda>i j. total_sum (torch_exp (sdiv (tneg cost_mat) eps))))
   = Inr (spec_q0 cost_mat eps)"
  unfolding torch_exp_cost
  by (simp add: bop_one spec_q0_def Let_def)

lemma row_step_code:
  assumes "\<And>q'. nrows q' = nrows q \<Longrightarrow> ncols q' = ncols q \<Longrightarrow>
             imul q' rop = Inr (mk2 (nrows q) (ncols q) (\<lambda>i j. fmul (at2 q' i j) (r i)))"
  shows "ebind (torch_sum (- 1) q) (\<lambda>s. ebind (iop fdiv q s) (\<lambda>q. imul q rop))
           = Inr (spec_row_step r q)"
  by (auto simp add: sum_axis_1 iop_col assms spec_row_step_def intro!: mk2_eqI)

lemma col_step_code:
  assumes "\<And>q'. nrows q' = nrows q \<Longrightarrow> ncols q' = ncols q \<Longrightarrow>
             imul q' cop = Inr (mk2 (nrows q) (ncols q) (\<lambda>i j. fmul (at2 q' i j) (c j)))"
  shows "ebind (torch_sum (- 2) q) (\<lambda>s. ebind (iop fdiv q s) (\<lambda>q. imul q cop))
           = Inr (spec_col_step c q)"
  by (auto simp add: sum_axis_0 iop_row assms spec_col_step_def intro!: mk2_eqI)

lemma shape_spec_row_step [simp]:
  "nrows (spec_row_step r q) = nrows q" "ncols (spec_row_step r q) = ncols q"
  by (simp_all add: spec_row_step_def)
lemma shape_spec_col_step [simp]:
  "nrows (spec_col_step c q) = nrows q" "ncols (spec_col_step c q) = ncols q"
  by (simp_all add: spec_col_step_def)

lemma sinkhorn_loop_spec:
  assumes r: "\<And>q'. nrows q' = m \<Longrightarrow> ncols q' = n \<Longrightarrow>
             imul q' rop = Inr (mk2 m n (\<lambda>i j. fmul (at2 q' i j) (r i)))"
      and c: "\<And>q'. nrows q' = m \<Longrightarrow> ncols q' = n \<Longrightarrow>
             imul q' cop = Inr (mk2 m n (\<lambda>i j. fmul (at2 q' i j) (c j)))"
  shows "nrows q = m \<Longrightarrow> ncols q = n \<Longrightarrow>
         sinkhorn_loop k rop cop q = Inr (((\<lambda>q. spec_col_step c (spec_row_step r q)) ^^ k) q)"
proof (induction k arbitrary: q)
  case 0
  then show ?case by simp
next
  case (Suc k)
  have rs: "ebind (torch_sum (- 1) q) (\<lambda>s. ebind (iop fdiv q s) (\<lambda>q. imul q rop))
           = Inr (spec_row_step r q)"
    by (rule row_step_code) (simp add: r Suc.prems)
  have cs: "ebind (torch_sum (- 2) (spec_row_step r q)) (\<lambda>s. ebind (iop fdiv (spec_row_step r q) s) (\<lambda>q. imul q cop))
           = Inr (spec_col_step c (spec_row_step r q))"
    by (rule col_step_code) (simp add: c Suc.prems)
  have "sinkhorn_loop (Suc k) rop cop q
      = ebind (ebind (torch_sum (- 1) q) (\<lambda>s. ebind (iop fdiv q s) (\<lambda>q. imul q rop)))
          (\<lambda>q. ebind (ebind (torch_sum (- 2) q) (\<lambda>s. ebind (iop fdiv q s) (\<lambda>q. imul q cop)))
             (\<lambda>q. sinkhorn_loop k rop cop q))"
    by (simp add: ebind_def split: sum.splits)
  also have "\<dots> = sinkhorn_loop k rop cop (spec_col_step c (spec_row_step r q))"
    by (simp only: rs cs ebind_Inr)
  also have "\<dots> = Inr (((\<lambda>q. spec_col_step c (spec_row_step r q)) ^^ k) (spec_col_step c (spec_row_step r q)))"
    by (rule Suc.IH) (simp_all add: Suc.prems)
  finally show ?case by (simp only: funpow_Suc_right o_apply)
qed

lemma tensor_any_iff:
  "tensor_any p T \<longleftrightarrow> (\<exists>i<nrows T. \<exists>j<ncols T. p (at2 T i j))"
  by (simp add: tensor_any_def list_ex_iff Bex_def)

lemma tensor_any_unsqueeze_last: "tensor_any p (unsqueeze_last v) \<longleftrightarrow> list_ex p v"
  by (fastforce simp add: tensor_any_iff unsqueeze_last_def list_ex_iff in_set_conv_nth)

lemma tensor_any_unsqueeze_first: "tensor_any p (unsqueeze_first v) \<longleftrightarrow> list_ex p v"
  by (fastforce simp add: tensor_any_iff unsqueeze_first_def list_ex_iff in_set_conv_nth)

lemma has_nan_or_inf_last:
  "has_nan_or_inf (unsqueeze_last v) \<longleftrightarrow> list_ex is_nan v \<or> list_ex is_inf v"
  by (simp add: has_nan_or_inf_def tensor_any_unsqueeze_last)

lemma has_nan_or_inf_first:
  "has_nan_or_inf (unsqueeze_first v) \<longleftrightarrow> list_ex is_nan v \<or> list_ex is_inf v"
  by (simp add: has_nan_or_inf_def tensor_any_unsqueeze_first)

lemma length_normalize1 [simp]: "length (normalize1 p) = length p"
  by (simp add: normalize1_def)

lemma nth_normalize1: "k < length p \<Longrightarrow> normalize1 p ! k = fdiv (p ! k) (fsum p)"
  by (simp add: normalize1_def)

lemma imul_PyFloat:
  "imul q (PyFloat x) = Inr (mk2 (nrows q) (ncols q) (\<lambda>i j. fmul (at2 q i j) x))"
  by (simp add: imul_def smul_def tmap_def)

lemma imul_row_tensor:
  "length p = nrows q \<Longrightarrow>
   imul q (Tens (unsqueeze_last (normalize1 p)))
     = Inr (mk2 (nrows q) (ncols q) (\<lambda>i j. fmul (at2 q i j) (spec_marginal (nrows q) (Some p) i)))"
  by (auto simp add: imul_def unsqueeze_last_def iop_col[of _ q, simplified] spec_marginal_def nth_normalize1
      intro!: mk2_eqI)

lemma imul_col_tensor:
  "length p = ncols q \<Longrightarrow>
   imul q (Tens (unsqueeze_first (normalize1 p)))
     = Inr (mk2 (nrows q) (ncols q) (\<lambda>i j. fmul (at2 q i j) (spec_marginal (ncols q) (Some p) j)))"
  by (auto simp add: imul_def unsqueeze_first_def iop_row[of _ q, simplified] spec_marginal_def nth_normalize1
      intro!: mk2_eqI)

lemma shape_spec_q0 [simp]:
  "nrows (spec_q0 cost eps) = nrows cost" "ncols (spec_q0 cost eps) = ncols cost"
  by (simp_all add: spec_q0_def Let_def)

lemma sinkhorn_iterate_unfold:
  "sinkhorn_iterate cost_mat eps niter r_prob c_prob =
     ebind (case r_prob of
               Some r \<Rightarrow>
                 (if has_nan_or_inf (unsqueeze_last (normalize1 r)) then Inl AssertionError
                  else Inr (Tens (unsqueeze_last (normalize1 r))))
             | None \<Rightarrow> ebind (py_div 1 (nrows cost_mat)) (\<lambda>x. Inr (PyFloat x))) (\<lambda>r_prob.
      ebind (case c_prob of
               Some c \<Rightarrow>
                 (if has_nan_or_inf (unsqueeze_first (normalize1 c)) then Inl AssertionError
                  else Inr (Tens (unsqueeze_first (normalize1 c))))
             | None \<Rightarrow> ebind (py_div 1 (ncols cost_mat)) (\<lambda>x. Inr (PyFloat x))) (\<lambda>c_prob.
      sinkhorn_loop (nat niter) r_prob c_prob (spec_q0 cost_mat eps)))"
  unfolding sinkhorn_iterate_def Let_def torch_sums_both ebind_Inr sinkhorn_init
  by (simp only: shape_spec_q0)

lemma sinkhorn_iterate_spec:
  assumes r: "marginal_admissible (nrows cost_mat) r_prob"
      and c: "marginal_admissible (ncols cost_mat) c_prob"
  shows "sinkhorn_iterate cost_mat eps niter r_prob c_prob
           = Inr (spec_iterate cost_mat eps (nat niter) r_prob c_prob)"
proof -
  obtain rop where rop:
    "(case r_prob of
               Some r \<Rightarrow>
                 (if has_nan_or_inf (unsqueeze_last (normalize1 r)) then Inl AssertionError
                  else Inr (Tens (unsqueeze_last (normalize1 r))))
             | None \<Rightarrow> ebind (py_div 1 (nrows cost_mat)) (\<lambda>x. Inr (PyFloat x))) = Inr rop"
    and rimul: "\<And>q'. nrows q' = nrows cost_mat \<Longrightarrow> ncols q' = ncols cost_mat \<Longrightarrow>
       imul q' rop = Inr (mk2 (nrows cost_mat) (ncols cost_mat)
                            (\<lambda>i j. fmul (at2 q' i j) (spec_marginal (nrows cost_mat) r_prob i)))"
  proof (cases r_prob)
    case None
    with r have "0 < nrows cost_mat" by (simp add: marginal_admissible_def)
    with None that[of "PyFloat (Fin (1 / real (nrows cost_mat)))"] show ?thesis
      by (simp add: py_div_def imul_PyFloat spec_marginal_def)
  next
    case (Some p)
    with r have "length p = nrows cost_mat" "\<not> has_nan_or_inf (unsqueeze_last (normalize1 p))"
      by (simp_all add: marginal_admissible_def has_nan_or_inf_last)
    with Some that[of "Tens (unsqueeze_last (normalize1 p))"] show ?thesis
      by (simp add: imul_row_tensor)
  qed
  obtain cop where cop:
    "(case c_prob of
               Some c \<Rightarrow>
                 (if has_nan_or_inf (unsqueeze_first (normalize1 c)) then Inl AssertionError
                  else Inr (Tens (unsqueeze_first (normalize1 c))))
             | None \<Rightarrow> ebind (py_div 1 (ncols cost_mat)) (\<lambda>x. Inr (PyFloat x))) = Inr cop"
    and cimul: "\<And>q'. nrows q' = nrows cost_mat \<Longrightarrow> ncols q' = ncols cost_mat \<Longrightarrow>
       imul q' cop = Inr (mk2 (nrows cost_mat) (ncols cost_mat)
                            (\<lambda>i j. fmul (at2 q' i j) (spec_marginal (ncols cost_mat) c_prob j)))"
  proof (cases c_prob)
    case None
    with c have "0 < ncols cost_mat" by (simp add: marginal_admissible_def)
    with None that[of "PyFloat (Fin (1 / real (ncols cost_mat)))"] show ?thesis
      by (simp add: py_div_def imul_PyFloat spec_marginal_def)
  next
    case (Some p)
    with c have "length p = ncols cost_mat" "\<not> has_nan_or_inf (unsqueeze_first (normalize1 p))"
      by (simp_all add: marginal_admissible_def has_nan_or_inf_first)
    with Some that[of "Tens (unsqueeze_first (normalize1 p))"] show ?thesis
      by (simp add: imul_col_tensor)
  qed
  have "sinkhorn_loop (nat niter) rop cop (spec_q0 cost_mat eps)
      = Inr (((\<lambda>q. spec_col_step (spec_marginal (ncols cost_mat) c_prob)
                     (spec_row_step (spec_marginal (nrows cost_mat) r_prob) q)) ^^ nat niter)
               (spec_q0 cost_mat eps))"
    by (rule sinkhorn_loop_spec[where m = "nrows cost_mat" and n = "ncols cost_mat"])
       (simp_all add: rimul cimul)
  then show ?thesis
    unfolding sinkhorn_iterate_unfold rop cop spec_iterate_def by simp
qed

subsection \<open>Finite tensors\<close>

lemma val_Fin [simp]: "val (Fin x) = x"
  by (simp add: val_def)

lemma fsum_upt_Fin:
  assumes "\<And>k. k < n \<Longrightarrow> \<exists>x. f k = Fin x"
  shows "fsum (map f [0..<n]) = Fin (\<Sum>k = 0..<n. val (f k))"
proof -
  have "fsum (map f [0..<n]) = Fin (sum_list (map (\<lambda>k. val (f k)) [0..<n]))"
  proof (rule fsum_Fin)
    fix k assume "k \<in> set [0..<n]"
    then have "k < n" by simp
    from assms[OF this] show "f k = Fin (val (f k))" by auto
  qed
  then show ?thesis by (simp add: interv_sum_list_conv_sum_set_nat)
qed

lemma finite_at:
  "finite_tensor T \<Longrightarrow> i < nrows T \<Longrightarrow> j < ncols T \<Longrightarrow> at2 T i j = Fin (val (at2 T i j))"
  unfolding finite_tensor_def by (metis val_Fin)

lemma row_sum_finite:
  assumes "finite_tensor T" "i < nrows T"
  shows "row_sum T i = Fin (\<Sum>j = 0..<ncols T. val (at2 T i j))"
  unfolding row_sum_def row2_def
  by (rule fsum_upt_Fin) (use assms in \<open>auto simp add: finite_tensor_def\<close>)

lemma col_sum_finite:
  assumes "finite_tensor T" "j < ncols T"
  shows "col_sum T j = Fin (\<Sum>i = 0..<nrows T. val (at2 T i j))"
  unfolding col_sum_def col2_def
  by (rule fsum_upt_Fin) (use assms in \<open>auto simp add: finite_tensor_def\<close>)

lemma spec_marginal_None: "spec_marginal sz None = (\<lambda>k. Fin (1 / real sz))"
  by (simp add: fun_eq_iff spec_marginal_def)

subsection \<open>Row normalization\<close>

lemma shape_row_normalize [simp]:
  "nrows (row_normalize q) = nrows q" "ncols (row_normalize q) = ncols q"
  by (simp_all add: row_normalize_def)

lemma final_bop: "ebind (torch_sum 1 q) (\<lambda>s. bop fdiv q s) = Inr (row_normalize q)"
  by (simp add: sum_axis_1 bop_col row_normalize_def)

lemma final_iop: "ebind (torch_sum 1 q) (\<lambda>s. iop fdiv q s) = Inr (row_normalize q)"
  by (simp add: sum_axis_1 iop_col row_normalize_def)

lemma sinkhorn_eq:
  "sinkhorn cost_mat eps niter r_prob c_prob =
     ebind (sinkhorn_iterate cost_mat eps niter r_prob c_prob) (\<lambda>q. Inr (row_normalize q))"
  unfolding sinkhorn_def final_bop ..

lemma sinkhorn_empty:
  assumes "nrows cost = 0 \<or> ncols cost = 0"
  shows "sinkhorn cost eps niter None None = Inl ZeroDivisionError"
  unfolding sinkhorn_eq sinkhorn_iterate_unfold
  using assms by (auto simp add: py_div_def)

subsection \<open>Similarity matrices\<close>

lemma shape_torch_t [simp]: "nrows (torch_t T) = ncols T" "ncols (torch_t T) = nrows T"
  by (simp_all add: torch_t_def)

lemma col2_torch_t: "j < nrows T \<Longrightarrow> col2 (torch_t T) j = row2 T j"
  by (simp add: col2_def row2_def torch_t_def)

lemma dot_rows:
  "ncols A = ncols B \<Longrightarrow>
   dot (row2 A i) (row2 B j) = fsum (map (\<lambda>k. fmul (at2 A i k) (at2 B j k)) [0..<ncols A])"
  by (simp add: dot_def row2_def map2_map_map)

lemma matmul_t:
  "ncols A = ncols B \<Longrightarrow> torch_matmul A (torch_t B) = Inr (spec_gram A B)"
  by (auto simp add: torch_matmul_def spec_gram_def col2_torch_t dot_rows intro!: mk2_eqI)

lemma matmul_t_mismatch:
  "ncols A \<noteq> ncols B \<Longrightarrow> torch_matmul A (torch_t B) = Inl RuntimeError"
  by (simp add: torch_matmul_def)

lemma torch_t_gram: "ncols A = ncols B \<Longrightarrow> torch_t (spec_gram A B) = spec_gram B A"
  by (auto simp add: torch_t_def spec_gram_def fmul_commute intro!: mk2_eqI)

lemma compute_similarities_eq:
  "ncols i_emb = ncols t_emb \<Longrightarrow>
   compute_similarities i_emb t_emb
     = Inr (spec_gram i_emb i_emb, spec_gram t_emb t_emb, spec_gram i_emb t_emb, spec_gram t_emb i_emb)"
  by (simp add: compute_similarities_def matmul_t)

lemma compute_similarities_mismatch:
  "ncols i_emb \<noteq> ncols t_emb \<Longrightarrow> compute_similarities i_emb t_emb = Inl RuntimeError"
  by (simp add: compute_similarities_def matmul_t matmul_t_mismatch)

lemma symmetric_gram: "symmetric2 (spec_gram A A)"
  by (simp add: symmetric2_def spec_gram_def fmul_commute)

subsection \<open>Shapes\<close>

lemma finite_mk2I:
  "(\<And>i j. i < m \<Longrightarrow> j < n \<Longrightarrow> \<exists>x. f i j = Fin x) \<Longrightarrow> finite_tensor (mk2 m n f)"
  by (simp add: finite_tensor_def)

lemma shape_tmap [simp]: "nrows (tmap f T) = nrows T" "ncols (tmap f T) = ncols T"
  by (simp_all add: tmap_def)

lemma shape_smul [simp]: "nrows (smul T c) = nrows T" "ncols (smul T c) = ncols T"
  by (simp_all add: smul_def)

lemma shape_ssub [simp]: "nrows (ssub T c) = nrows T" "ncols (ssub T c) = ncols T"
  by (simp_all add: ssub_def)

lemma shape_tneg [simp]: "nrows (tneg T) = nrows T" "ncols (tneg T) = ncols T"
  by (simp_all add: tneg_def)

lemma shape_gram [simp]: "nrows (spec_gram A B) = nrows A" "ncols (spec_gram A B) = nrows B"
  by (simp_all add: spec_gram_def)

lemma shape_eye [simp]: "nrows (torch_eye m n) = m" "ncols (torch_eye m n) = n"
  by (simp_all add: torch_eye_def)

lemma iop_row_sums: "iop fdiv q (sum_axis (Suc 0) q) = Inr (row_normalize q)"
  by (simp add: sum_axis_1 iop_col row_normalize_def)

subsection \<open>Errors of the loop\<close>

lemma iop_error: "iop f A B = Inl e \<Longrightarrow> e = RuntimeError"
  by (auto simp add: iop_def split: option.splits if_splits)

lemma imul_error: "imul q p = Inl e \<Longrightarrow> e = RuntimeError"
  by (auto simp add: imul_def split: operand.splits dest: iop_error)

lemma ebind_error:
  "ebind x f = Inl e \<Longrightarrow> x = Inl e \<or> (\<exists>v. x = Inr v \<and> f v = Inl e)"
  by (cases x) simp_all

lemma sinkhorn_loop_error: "sinkhorn_loop k r c q = Inl e \<Longrightarrow> e = RuntimeError"
proof (induction k arbitrary: q)
  case 0
  then show ?case by simp
next
  case (Suc k)
  from Suc.prems show ?case
    by (auto dest!: ebind_error dest: iop_error imul_error Suc.IH)
qed

lemma sinkhorn_rest_not_assertion:
  "ebind (sinkhorn_loop k r c q) (\<lambda>q. Inr (row_normalize q)) \<noteq> Inl AssertionError"
  by (cases "sinkhorn_loop k r c q") (auto dest: sinkhorn_loop_error)

subsection \<open>The reduction keywords\<close>

lemma reduction_names_distinct:
  "''mean'' \<noteq> ''average''" "''mean'' \<noteq> ''avg''" "''mean'' \<noteq> ''sum''"
  "''mean'' \<noteq> ''add''" "''mean'' \<noteq> ''none''" "''average'' \<noteq> ''mean''"
  "''average'' \<noteq> ''avg''" "''average'' \<noteq> ''sum''"
  "''average'' \<noteq> ''add''" "''average'' \<noteq> ''none''"
  "''avg'' \<noteq> ''mean''" "''avg'' \<noteq> ''average''" "''avg'' \<noteq> ''sum''"
  "''avg'' \<noteq> ''add''" "''avg'' \<noteq> ''none''" "''sum'' \<noteq> ''mean''"
  "''sum'' \<noteq> ''average''" "''sum'' \<noteq> ''avg''" "''sum'' \<noteq> ''add''"
  "''sum'' \<noteq> ''none''" "''add'' \<noteq> ''mean''" "''add'' \<noteq> ''average''"
  "''add'' \<noteq> ''avg''" "''add'' \<noteq> ''sum''" "''add'' \<noteq> ''none''"
  "''none'' \<noteq> ''mean''" "''none'' \<noteq> ''average''" "''none'' \<noteq> ''avg''"
  "''none'' \<noteq> ''sum''" "''none'' \<noteq> ''add''"
  by simp_all

lemma reduction_names_member:
  "''mean'' \<in> REDUCTIONS" "''average'' \<in> REDUCTIONS" "''avg'' \<in> REDUCTIONS"
  "''sum'' \<in> REDUCTIONS" "''add'' \<in> REDUCTIONS" "''none'' \<in> REDUCTIONS"
  by (simp_all add: REDUCTIONS_def)

lemma in_REDUCTIONS:
  "r \<in> REDUCTIONS \<longleftrightarrow> r = ''mean'' \<or> r = ''average'' \<or> r = ''avg'' \<or> r = ''sum''
     \<or> r = ''add'' \<or> r = ''none''"
  by (simp add: REDUCTIONS_def)

lemmas reduction_simps =
  reduction_names_member reduction_names_distinct if_False if_True simp_thms

lemma compute_mse_similarities_mean:
  "compute_mse_similarities a b c d ''mean'' =
     ebind (mse_loss a d) (\<lambda>x. ebind (mse_loss b d) (\<lambda>y. ebind (mse_loss c d) (\<lambda>z.
       Inr (Scalar (torch_mean [x, y, z])))))"
  unfolding compute_mse_similarities_def Let_def
  by (simp only: reduction_simps)

lemma compute_mse_similarities_average:
  "compute_mse_similarities a b c d ''average'' =
     ebind (mse_loss a d) (\<lambda>x. ebind (mse_loss b d) (\<lambda>y. ebind (mse_loss c d) (\<lambda>z.
       Inr (Scalar (torch_mean [x, y, z])))))"
  unfolding compute_mse_similarities_def Let_def
  by (simp only: reduction_simps)

lemma compute_mse_similarities_avg:
  "compute_mse_similarities a b c d ''avg'' =
     ebind (mse_loss a d) (\<lambda>x. ebind (mse_loss b d) (\<lambda>y. ebind (mse_loss c d) (\<lambda>z.
       Inr (Scalar (torch_mean [x, y, z])))))"
  unfolding compute_mse_similarities_def Let_def
  by (simp only: reduction_simps)

lemma compute_mse_similarities_sum:
  "compute_mse_similarities a b c d ''sum'' =
     ebind (mse_loss a d) (\<lambda>x. ebind (mse_loss b d) (\<lambda>y. ebind (mse_loss c d) (\<lambda>z.
       Inr (Scalar (torch_mean [x, y, z])))))"
  unfolding compute_mse_similarities_def Let_def
  by (simp only: reduction_simps)

lemma compute_mse_similarities_add:
  "compute_mse_similarities a b c d ''add'' =
     ebind (mse_loss a d) (\<lambda>x. ebind (mse_loss b d) (\<lambda>y. ebind (mse_loss c d) (\<lambda>z.
       Inr (Scalar (torch_mean [x, y, z])))))"
  unfolding compute_mse_similarities_def Let_def
  by (simp only: reduction_simps)

lemma compute_mse_similarities_none:
  "compute_mse_similarities a b c d ''none'' =
     ebind (mse_loss a d) (\<lambda>x. ebind (mse_loss b d) (\<lambda>y. ebind (mse_loss c d) (\<lambda>z.
       Inr (Stacked [x, y, z]))))"
  unfolding compute_mse_similarities_def Let_def
  by (simp only: reduction_simps)

lemma compute_mse_similarities_invalid:
  "r \<notin> REDUCTIONS \<Longrightarrow>
   compute_mse_similarities a b c d r = Inl (ValueError REDUCTIONS r)"
  unfolding compute_mse_similarities_def by (simp only: if_True simp_thms)

lemma compute_mse_similarities_valid_form:
  assumes "r \<in> REDUCTIONS"
  shows "compute_mse_similarities a b c d r =
     ebind (mse_loss a d) (\<lambda>x. ebind (mse_loss b d) (\<lambda>y. ebind (mse_loss c d) (\<lambda>z.
       Inr (if r = ''none'' then Stacked [x, y, z] else Scalar (torch_mean [x, y, z])))))"
proof -
  from assms have "r = ''mean'' \<or> r = ''average'' \<or> r = ''avg'' \<or> r = ''sum''
     \<or> r = ''add'' \<or> r = ''none''"
    by (simp only: in_REDUCTIONS)
  then show ?thesis
  proof (elim disjE)
    assume "r = ''mean''" then show ?thesis
      by (simp only: compute_mse_similarities_mean reduction_simps)
  next
    assume "r = ''average''" then show ?thesis
      by (simp only: compute_mse_similarities_average reduction_simps)
  next
    assume "r = ''avg''" then show ?thesis
      by (simp only: compute_mse_similarities_avg reduction_simps)
  next
    assume "r = ''sum''" then show ?thesis
      by (simp only: compute_mse_similarities_sum reduction_simps)
  next
    assume "r = ''add''" then show ?thesis
      by (simp only: compute_mse_similarities_add reduction_simps)
  next
    assume "r = ''none''" then show ?thesis
      by (simp only: compute_mse_similarities_none reduction_simps)
  qed
qed

lemma mse_loss_cases:
  "mse_loss A B = Inl RuntimeError \<and> \<not> broadcastable A B
   \<or> (\<exists>v. mse_loss A B = Inr v) \<and> broadcastable A B"
  by (auto simp add: mse_loss_def bop_def broadcastable_def split: option.splits)

lemma mse_loss_Inr: "broadcastable A B \<Longrightarrow> \<exists>v. mse_loss A B = Inr v"
  using mse_loss_cases[of A B] by blast

lemma mse_loss_error: "mse_loss A B = Inl e \<Longrightarrow> e = RuntimeError"
  using mse_loss_cases[of A B] by auto

lemma ebind3_error:
  assumes "ebind (mse_loss a d) (\<lambda>x. ebind (mse_loss b d) (\<lambda>y. ebind (mse_loss c d) (\<lambda>z.
             Inr (g x y z)))) = Inl e"
  shows "e = RuntimeError"
  using assms
  by (cases "mse_loss a d"; cases "mse_loss b d"; cases "mse_loss c d")
     (auto dest: mse_loss_error)

lemma compute_mse_similarities_valid_error:
  assumes "r \<in> REDUCTIONS" and "compute_mse_similarities a b c d r = Inl e"
  shows "e = RuntimeError"
  using assms(2) unfolding compute_mse_similarities_valid_form[OF assms(1)]
  by (rule ebind3_error)

lemma compute_mse_similarities_valid:
  assumes "r \<in> REDUCTIONS"
      and "broadcastable a d" "broadcastable b d" "broadcastable c d"
  shows "\<exists>v. compute_mse_similarities a b c d r = Inr v"
proof -
  obtain x where x: "mse_loss a d = Inr x" using mse_loss_Inr[OF assms(2)] ..
  obtain y where y: "mse_loss b d = Inr y" using mse_loss_Inr[OF assms(3)] ..
  obtain z where z: "mse_loss c d = Inr z" using mse_loss_Inr[OF assms(4)] ..
  have "compute_mse_similarities a b c d r
          = Inr (if r = ''none'' then Stacked [x, y, z] else Scalar (torch_mean [x, y, z]))"
    by (simp only: compute_mse_similarities_valid_form[OF assms(1)] x y z ebind_Inr)
  then show ?thesis ..
qed


lemma broadcastable_one_by_one:
  "broadcastable (Tensor2 1 1 [[Fin 1]]) (Tensor2 1 1 [[Fin 0]])"
  by (simp add: broadcastable_def)

lemma invalid_not_allowed: "''invalid'' \<notin> REDUCTIONS"
  by (simp add: REDUCTIONS_def)

subsection \<open>Counting the correct retrievals\<close>

lemma length_filter_upt: "length (filter P [0..<n]) = card {i. i < n \<and> P i}"
proof -
  have "set (filter P [0..<n]) = {i. i < n \<and> P i}" by auto
  moreover have "distinct (filter P [0..<n])" by simp
  ultimately show ?thesis by (metis distinct_card)
qed

lemma eq_count_arange:
  "eq_count (map f [0..<n]) [0..<n] = Inr (card {k. k < n \<and> f k = k})"
proof -
  have "filter (\<lambda>k. map f [0..<n] ! (if length (map f [0..<n]) = 1 then 0 else k)
                      = [0..<n] ! (if length [0..<n] = 1 then 0 else k)) [0..<n]
        = filter (\<lambda>k. f k = k) [0..<n]"
    by (rule filter_cong) auto
  then show ?thesis
    by (simp add: eq_count_def length_filter_upt)
qed

lemma torch_argmax_rows:
  "0 < ncols T \<Longrightarrow> torch_argmax T 1 = Inr (map (\<lambda>i. argmax1 (row2 T i)) [0..<nrows T])"
  by (simp add: torch_argmax_def resolve_dim_def)

lemma torch_argmax_cols:
  "0 < nrows T \<Longrightarrow> torch_argmax T 0 = Inr (map (\<lambda>j. argmax1 (col2 T j)) [0..<ncols T])"
  by (simp add: torch_argmax_def resolve_dim_def)

lemma compute_accuracy_square:
  assumes "nrows logits = ncols logits" and "0 < nrows logits"
  shows "compute_accuracy logits batch_size
           = Inr (fdiv (fdiv (Fin (real (spec_acc_i logits + spec_acc_t logits))) (Fin 2))
                       (Fin (of_int batch_size)))"
proof -
  have r: "torch_argmax logits 1 = Inr (map (\<lambda>i. argmax1 (row2 logits i)) [0..<nrows logits])"
    using assms by (simp add: torch_argmax_rows)
  have c: "torch_argmax logits 0 = Inr (map (\<lambda>j. argmax1 (col2 logits j)) [0..<nrows logits])"
    using assms by (simp add: torch_argmax_cols)
  show ?thesis
    unfolding compute_accuracy_def Let_def r c ebind_Inr eq_count_arange
    using assms(1) by (simp add: spec_acc_i_def spec_acc_t_def)
qed

lemmas unfold_accuracy =
  compute_accuracy_def torch_argmax_def resolve_dim_def eq_count_def bdim_def argmax1_def
  row2_def col2_def at2_def eval_nat_numeral Let_def

lemma accuracy_identity:
  "compute_accuracy (Tensor2 4 4 [[Fin 1, Fin 0, Fin 0, Fin 0], [Fin 0, Fin 1, Fin 0, Fin 0],
                                  [Fin 0, Fin 0, Fin 1, Fin 0], [Fin 0, Fin 0, Fin 0, Fin 1]]) 4
     = Inr (Fin 1)"
  by (simp add: unfold_accuracy)

lemma accuracy_reversed:
  "compute_accuracy (Tensor2 4 4 [[Fin 0, Fin 0, Fin 0, Fin 1], [Fin 0, Fin 0, Fin 1, Fin 0],
                                  [Fin 0, Fin 1, Fin 0, Fin 0], [Fin 1, Fin 0, Fin 0, Fin 0]]) 4
     = Inr (Fin 0)"
  by (simp add: unfold_accuracy)

lemma count_from_quotient:
  fixes k :: nat
  assumes "real k / 2 / 4 = 1"
  shows "k = 8"
proof -
  from assms have "real k = 8" by simp
  then show ?thesis by (metis of_nat_eq_iff of_nat_numeral)
qed

lemma compute_accuracy_empty:
  "ncols logits = 0 \<Longrightarrow> compute_accuracy logits batch_size = Inl IndexError"
  by (simp add: compute_accuracy_def torch_argmax_def resolve_dim_def)

subsection \<open>The range of the exponential\<close>

declare fexp.simps(1) [simp del]

lemma exp_one_lower: "5 / 2 \<le> exp (1::real)"
  using exp_lower_Taylor_quadratic[of "1::real"] by simp

lemma exp_120_lower: "(2::real) ^ 150 \<le> exp 120"
proof -
  have "(2::real) ^ 150 = (2 ^ 5) ^ 30" by simp
  also have "\<dots> \<le> ((5 / 2) ^ 4) ^ 30"
    by (rule power_mono) (simp_all add: power_divide)
  also have "\<dots> = (5 / 2) ^ 120"
    by (simp only: power_mult[symmetric]) simp
  also have "\<dots> \<le> exp 1 ^ 120"
    by (rule power_mono[OF exp_one_lower]) simp
  also have "\<dots> = exp (of_nat 120 * 1)"
    by (rule exp_of_nat_mult[symmetric])
  finally show ?thesis by simp
qed

lemma exp_underflows:
  assumes "x \<le> - 120"
  shows "exp x \<le> exp_underflow"
proof -
  have "exp x \<le> exp (- 120)" using assms by simp
  also have "\<dots> = 1 / exp 120" by (simp add: exp_minus divide_inverse)
  also have "\<dots> \<le> 1 / 2 ^ 150"
    using exp_120_lower by (simp add: frac_le)
  finally show ?thesis by (simp add: exp_underflow_def)
qed

lemma fexp_underflow: "x \<le> - 120 \<Longrightarrow> fexp (Fin x) = Fin 0"
  by (simp add: fexp.simps(1) exp_underflows)

lemma fexp_zero [simp]: "fexp (Fin 0) = Fin 1"
  by (simp add: fexp.simps(1) exp_underflow_def exp_overflow_def)


subsection \<open>Values that are not negative\<close>

lemma not_negative_simps [simp]:
  "not_negative (Fin x) \<longleftrightarrow> 0 \<le> x" "not_negative PInf" "not_negative NaN"
  "\<not> not_negative NInf"
  by (simp_all add: not_negative_def)

lemma not_negative_fexp: "not_negative (fexp v)"
  by (cases v) (simp_all add: fexp.simps(1))

lemma not_negative_fadd: "not_negative a \<Longrightarrow> not_negative b \<Longrightarrow> not_negative (fadd a b)"
  by (cases a; cases b) simp_all

lemma not_negative_fmul: "not_negative a \<Longrightarrow> not_negative b \<Longrightarrow> not_negative (fmul a b)"
  by (cases a; cases b) (auto simp add: inf_of_sign_def)

lemma not_negative_fdiv: "not_negative a \<Longrightarrow> not_negative b \<Longrightarrow> not_negative (fdiv a b)"
  by (cases a; cases b) (auto simp add: inf_of_sign_def)

lemma not_negative_fsum:
  "(\<And>x. x \<in> set xs \<Longrightarrow> not_negative x) \<Longrightarrow> not_negative (fsum xs)"
  by (induction xs) (simp_all add: not_negative_fadd)

lemma not_negative_mk2I:
  "(\<And>i j. i < m \<Longrightarrow> j < n \<Longrightarrow> not_negative (f i j)) \<Longrightarrow> not_negative_tensor (mk2 m n f)"
  by (simp add: not_negative_tensor_def)

lemma not_negative_at:
  "not_negative_tensor T \<Longrightarrow> i < nrows T \<Longrightarrow> j < ncols T \<Longrightarrow> not_negative (at2 T i j)"
  by (simp add: not_negative_tensor_def)

lemma not_negative_row_sum:
  "not_negative_tensor T \<Longrightarrow> i < nrows T \<Longrightarrow> not_negative (row_sum T i)"
  unfolding row_sum_def row2_def
  by (rule not_negative_fsum) (auto simp add: not_negative_at)

lemma not_negative_col_sum:
  "not_negative_tensor T \<Longrightarrow> j < ncols T \<Longrightarrow> not_negative (col_sum T j)"
  unfolding col_sum_def col2_def
  by (rule not_negative_fsum) (auto simp add: not_negative_at)

lemma not_negative_total_sum:
  "not_negative_tensor T \<Longrightarrow> not_negative (total_sum T)"
  unfolding total_sum_def
  by (rule not_negative_fsum) (auto simp add: not_negative_row_sum)

lemma not_negative_row_step:
  assumes "not_negative_tensor q" and "\<And>i. not_negative (r i)"
  shows "not_negative_tensor (spec_row_step r q)"
  unfolding spec_row_step_def
  by (rule not_negative_mk2I)
     (intro not_negative_fmul not_negative_fdiv not_negative_at not_negative_row_sum assms)

lemma not_negative_col_step:
  assumes "not_negative_tensor q" and "\<And>j. not_negative (c j)"
  shows "not_negative_tensor (spec_col_step c q)"
  unfolding spec_col_step_def
  by (rule not_negative_mk2I)
     (intro not_negative_fmul not_negative_fdiv not_negative_at not_negative_col_sum assms)

lemma not_negative_spec_q0: "not_negative_tensor (spec_q0 cost eps)"
proof -
  let ?E = "mk2 (nrows cost) (ncols cost) (\<lambda>i j. fexp (fdiv (fneg (at2 cost i j)) eps))"
  have E: "not_negative_tensor ?E"
    by (rule not_negative_mk2I) (rule not_negative_fexp)
  show ?thesis
    unfolding spec_q0_def Let_def
  proof (rule not_negative_mk2I)
    fix i j assume "i < nrows cost" "j < ncols cost"
    then show "not_negative (fdiv (at2 ?E i j) (total_sum ?E))"
      by (intro not_negative_fdiv not_negative_total_sum E) (simp add: not_negative_fexp)
  qed
qed

lemma not_negative_funpow:
  assumes "\<And>q. not_negative_tensor q \<Longrightarrow> not_negative_tensor (f q)"
  shows "not_negative_tensor q \<Longrightarrow> not_negative_tensor ((f ^^ k) q)"
  by (induction k) (simp_all add: assms)

lemma not_negative_spec_iterate:
  "not_negative_tensor (spec_iterate cost eps k None None)"
  unfolding spec_iterate_def spec_marginal_None
  by (intro not_negative_funpow not_negative_col_step not_negative_row_step
        not_negative_spec_q0) simp_all

lemma shape_funpow:
  assumes "\<And>q. nrows (f q) = nrows q \<and> ncols (f q) = ncols q"
  shows "nrows ((f ^^ k) q) = nrows q \<and> ncols ((f ^^ k) q) = ncols q"
  by (induction k) (simp_all add: assms)

lemma shape_spec_iterate [simp]:
  "nrows (spec_iterate cost eps k r c) = nrows cost"
  "ncols (spec_iterate cost eps k r c) = ncols cost"
  unfolding spec_iterate_def
  using shape_funpow[of "\<lambda>q. spec_col_step (spec_marginal (ncols cost) c)
             (spec_row_step (spec_marginal (nrows cost) r) q)" k "spec_q0 cost eps"]
  by simp_all

lemma not_negative_row_normalize:
  "not_negative_tensor q \<Longrightarrow> not_negative_tensor (row_normalize q)"
  unfolding row_normalize_def
  by (rule not_negative_mk2I)
     (intro not_negative_fdiv not_negative_at not_negative_row_sum)

subsection \<open>Row normalization of a matrix without NaN and Inf\<close>

lemma fdiv_Fin_numerator: "fdiv a s = Fin z \<Longrightarrow> \<exists>x. a = Fin x"
  by (cases a; cases s) (auto simp add: inf_of_sign_def split: if_splits)

lemma fdiv_Fin_Fin: "fdiv (Fin x) (Fin y) = Fin z \<Longrightarrow> y \<noteq> 0 \<and> z = x / y"
  by (auto simp add: inf_of_sign_def split: if_splits)

lemma row_sum_mk2:
  "i < m \<Longrightarrow> row_sum (mk2 m n f) i = fsum (map (f i) [0..<n])"
  by (simp add: row_sum_def row2_mk2)

lemma row_normalize_finite_sums:
  assumes fin: "finite_tensor (row_normalize q)" and n: "0 < ncols q"
  shows "rows_sum_to_one (row_normalize q)"
  unfolding rows_sum_to_one_def
proof (intro allI impI)
  fix i assume "i < nrows (row_normalize q)"
  then have i: "i < nrows q" by simp
  have entry: "\<exists>z. fdiv (at2 q i j) (row_sum q i) = Fin z" if "j < ncols q" for j
    using fin i that by (auto simp add: finite_tensor_def row_normalize_def)
  have num: "\<exists>x. at2 q i j = Fin x" if "j < ncols q" for j
    using entry[OF that] fdiv_Fin_numerator by blast
  define y where "y = (\<Sum>j = 0..<ncols q. val (at2 q i j))"
  have s: "row_sum q i = Fin y"
    unfolding row_sum_def row2_def y_def by (rule fsum_upt_Fin) (rule num)
  have quot: "fdiv (at2 q i j) (row_sum q i) = Fin (val (at2 q i j) / y) \<and> y \<noteq> 0"
    if "j < ncols q" for j
  proof -
    from num[OF that] obtain x where x: "at2 q i j = Fin x" by blast
    from entry[OF that] obtain z where "fdiv (Fin x) (Fin y) = Fin z"
      unfolding x s by blast
    from fdiv_Fin_Fin[OF this] show ?thesis by (simp add: x s)
  qed
  from quot[OF n] have y: "y \<noteq> 0" by simp
  have "row_sum (row_normalize q) i
          = fsum (map (\<lambda>j. fdiv (at2 q i j) (row_sum q i)) [0..<ncols q])"
    unfolding row_normalize_def by (rule row_sum_mk2[OF i])
  also have "\<dots> = Fin (sum_list (map (\<lambda>j. val (at2 q i j) / y) [0..<ncols q]))"
    by (rule fsum_Fin) (simp add: quot)
  also have "sum_list (map (\<lambda>j. val (at2 q i j) / y) [0..<ncols q])
               = (\<Sum>j = 0..<ncols q. val (at2 q i j) / y)"
    by (simp add: interv_sum_list_conv_sum_set_nat)
  also have "\<dots> = (\<Sum>j = 0..<ncols q. val (at2 q i j)) / y"
    by (simp only: sum_divide_distrib)
  also have "\<dots> = y / y"
    by (simp only: y_def)
  finally show "row_sum (row_normalize q) i = Fin 1" using y by simp
qed

lemma rows_between:
  assumes fin: "finite_tensor T" and nn: "not_negative_tensor T" and one: "rows_sum_to_one T"
  shows "entries_between 0 1 T"
  unfolding entries_between_def
proof (intro allI impI)
  fix i j assume i: "i < nrows T" and j: "j < ncols T"
  have nonneg: "0 \<le> val (at2 T i k)" if "k < ncols T" for k
    using not_negative_at[OF nn i that] finite_at[OF fin i that]
    by (cases "at2 T i k") simp_all
  have "Fin (\<Sum>k = 0..<ncols T. val (at2 T i k)) = Fin 1"
    using row_sum_finite[OF fin i] one i by (simp add: rows_sum_to_one_def)
  then have total: "(\<Sum>k = 0..<ncols T. val (at2 T i k)) = 1" by simp
  have "val (at2 T i j) \<le> (\<Sum>k = 0..<ncols T. val (at2 T i k))"
    by (rule member_le_sum) (use j nonneg in auto)
  then have "val (at2 T i j) \<le> 1" using total by simp
  with nonneg[OF j] finite_at[OF fin i j]
  show "\<exists>x\<ge>0. x \<le> 1 \<and> at2 T i j = Fin x" by blast
qed

lemma sigmoid_entry_finite: "fsub (fmul v (Fin 2)) (Fin 1) = Fin z \<Longrightarrow> \<exists>x. v = Fin x"
  by (cases v) (simp_all add: fsub_def inf_of_sign_def)

lemma at2_sigmoid:
  "i < nrows X \<Longrightarrow> j < ncols X \<Longrightarrow>
   at2 (ssub (smul X (Fin 2)) (Fin 1)) i j = fsub (fmul (at2 X i j) (Fin 2)) (Fin 1)"
  by (simp add: ssub_def smul_def tmap_def)

lemma finite_sigmoid:
  assumes "finite_tensor (ssub (smul X (Fin 2)) (Fin 1))"
  shows "finite_tensor X"
  unfolding finite_tensor_def
proof (intro allI impI)
  fix i j assume ij: "i < nrows X" "j < ncols X"
  with assms obtain z where "at2 (ssub (smul X (Fin 2)) (Fin 1)) i j = Fin z"
    unfolding finite_tensor_def by auto
  then show "\<exists>x. at2 X i j = Fin x"
    unfolding at2_sigmoid[OF ij] by (rule sigmoid_entry_finite)
qed

lemma between_sigmoid:
  assumes "entries_between 0 1 X"
  shows "entries_between (- 1) 1 (ssub (smul X (Fin 2)) (Fin 1))"
  unfolding entries_between_def
proof (intro allI impI)
  fix i j
  assume "i < nrows (ssub (smul X (Fin 2)) (Fin 1))" "j < ncols (ssub (smul X (Fin 2)) (Fin 1))"
  then have i: "i < nrows X" and j: "j < ncols X" by simp_all
  from assms i j obtain x where x: "0 \<le> x" "x \<le> 1" "at2 X i j = Fin x"
    unfolding entries_between_def by blast
  have "at2 (ssub (smul X (Fin 2)) (Fin 1)) i j = Fin (x * 2 - 1)"
    using i j x(3) by (simp add: ssub_def smul_def tmap_def fsub_def)
  moreover have "- 1 \<le> x * 2 - 1" "x * 2 - 1 \<le> 1" using x by simp_all
  ultimately show "\<exists>x\<ge>- 1. x \<le> 1 \<and> at2 (ssub (smul X (Fin 2)) (Fin 1)) i j = Fin x"
    by blast
qed

subsection \<open>sinkhorn without marginals\<close>

lemma sinkhorn_uniform:
  assumes "0 < nrows cost" "0 < ncols cost"
  shows "sinkhorn cost eps niter None None
           = Inr (row_normalize (spec_iterate cost eps (nat niter) None None))"
  unfolding sinkhorn_eq
  by (subst sinkhorn_iterate_spec) (use assms in \<open>simp_all add: marginal_admissible_def\<close>)

lemma sinkhorn_uniform_cases:
  "sinkhorn cost eps niter None None =
     (if nrows cost = 0 \<or> ncols cost = 0 then Inl ZeroDivisionError
      else Inr (row_normalize (spec_iterate cost eps (nat niter) None None)))"
  by (simp add: sinkhorn_empty sinkhorn_uniform)

lemma sinkhorn_returned:
  assumes "sinkhorn cost eps niter None None = Inr R"
  shows "R = row_normalize (spec_iterate cost eps (nat niter) None None)"
    and "0 < nrows cost" and "0 < ncols cost" and "nrows R = nrows cost" and "ncols R = ncols cost"
    and "not_negative_tensor R"
  using assms
  by (auto simp add: sinkhorn_uniform_cases not_negative_row_normalize not_negative_spec_iterate
      split: if_splits)

lemma sinkhorn_finite_props:
  assumes R: "sinkhorn cost eps niter None None = Inr R" and fin: "finite_tensor R"
  shows "rows_sum_to_one R" and "entries_between 0 1 R"
proof -
  note r = sinkhorn_returned[OF R]
  show one: "rows_sum_to_one R"
    using fin r(3) unfolding r(1) by (intro row_normalize_finite_sums) simp_all
  show "entries_between 0 1 R"
    by (rule rows_between[OF fin r(6) one])
qed

lemma row_normalize_finite_props:
  assumes nn: "not_negative_tensor q" and n: "0 < ncols q"
      and fin: "finite_tensor (row_normalize q)"
  shows "rows_sum_to_one (row_normalize q)" and "entries_between 0 1 (row_normalize q)"
proof -
  show one: "rows_sum_to_one (row_normalize q)"
    by (rule row_normalize_finite_sums[OF fin n])
  show "entries_between 0 1 (row_normalize q)"
    by (rule rows_between[OF fin not_negative_row_normalize[OF nn] one])
qed

subsection \<open>The teacher targets\<close>

lemma ebind_Inr_iff: "ebind x f = Inr r \<longleftrightarrow> (\<exists>v. x = Inr v \<and> f v = Inr r)"
  by (cases x) simp_all

lemma compute_teacher_targets_unfold:
  "compute_teacher_targets I T a c eps iters d sg =
     ebind (compute_similarities I T)
       (\<lambda>(sim_ii, sim_tt, sim_it, sim_ti).
     ebind (bop fsub sim_ii (smul (smul (torch_eye (nrows sim_ii) (ncols sim_ii)) d) (Fin 100)))
       (\<lambda>d_ii.
     ebind (bop fsub sim_tt (smul (smul (torch_eye (nrows sim_ii) (ncols sim_ii)) d) (Fin 100)))
       (\<lambda>d_tt.
     ebind (bop fadd (smul d_ii a) (smul d_tt c)) (\<lambda>s.
     ebind (bop fadd s sim_it) (\<lambda>s_it.
     ebind (bop fadd s sim_ti) (\<lambda>s_ti.
     ebind (sinkhorn (tneg s_it) eps iters None None) (\<lambda>P0.
     ebind (sinkhorn (tneg s_ti) eps iters None None) (\<lambda>Q0.
     Inr (if sg then (ssub (smul (row_normalize P0) (Fin 2)) (Fin 1),
                      ssub (smul (row_normalize Q0) (Fin 2)) (Fin 1))
          else (row_normalize P0, row_normalize Q0))))))))))"
  unfolding compute_teacher_targets_def Let_def
  by (cases sg) (simp_all add: iop_row_sums)

lemma teacher_returned:
  assumes "compute_teacher_targets I T a c eps iters d sg = Inr (P, Q)"
  shows "\<exists>ic tc P0 Q0.
           sinkhorn ic eps iters None None = Inr P0
         \<and> sinkhorn tc eps iters None None = Inr Q0
         \<and> P = (if sg then ssub (smul (row_normalize P0) (Fin 2)) (Fin 1) else row_normalize P0)
         \<and> Q = (if sg then ssub (smul (row_normalize Q0) (Fin 2)) (Fin 1) else row_normalize Q0)"
  using assms unfolding compute_teacher_targets_unfold
  by (cases sg; clarsimp simp add: ebind_Inr_iff; blast)

lemma teacher_total:
  assumes b: "nrows I = nrows T" and dm: "ncols I = ncols T" and pos: "0 < nrows I"
  shows "\<exists>P Q. compute_teacher_targets I T a c eps iters d sg = Inr (P, Q)"
  unfolding compute_teacher_targets_unfold compute_similarities_eq[OF dm]
  using b pos by (simp add: bop_same sinkhorn_uniform)

lemma teacher_empty:
  assumes b: "nrows I = nrows T" and dm: "ncols I = ncols T" and z: "nrows I = 0"
  shows "compute_teacher_targets I T a c eps iters d sg = Inl ZeroDivisionError"
  unfolding compute_teacher_targets_unfold compute_similarities_eq[OF dm]
  using b z by (simp add: bop_same sinkhorn_empty)

lemma target_finite_props:
  assumes P0: "sinkhorn cost eps iters None None = Inr P0"
      and P: "P = (if sg then ssub (smul (row_normalize P0) (Fin 2)) (Fin 1)
                   else row_normalize P0)"
      and fin: "finite_tensor P"
  shows "if sg then entries_between (- 1) 1 P
         else entries_between 0 1 P \<and> rows_sum_to_one P"
proof -
  note p = sinkhorn_returned[OF P0]
  have np: "0 < ncols P0" using p by simp
  show ?thesis
  proof (cases sg)
    case True
    from fin have "finite_tensor (row_normalize P0)"
      unfolding P using True by (simp add: finite_sigmoid)
    then have "entries_between 0 1 (row_normalize P0)"
      by (rule row_normalize_finite_props(2)[OF p(6) np])
    then show ?thesis unfolding P using True by (simp add: between_sigmoid)
  next
    case False
    from fin have "finite_tensor (row_normalize P0)"
      unfolding P using False by simp
    then show ?thesis unfolding P using False
      by (simp add: row_normalize_finite_props[OF p(6) np])
  qed
qed

lemma teacher_finite_props:
  assumes R: "compute_teacher_targets I T a c eps iters d sg = Inr (P, Q)"
  shows "finite_tensor P \<Longrightarrow>
           (if sg then entries_between (- 1) 1 P
            else entries_between 0 1 P \<and> rows_sum_to_one P)"
    and "finite_tensor Q \<Longrightarrow>
           (if sg then entries_between (- 1) 1 Q
            else entries_between 0 1 Q \<and> rows_sum_to_one Q)"
proof -
  from teacher_returned[OF R] obtain ic tc P0 Q0 where
        P0: "sinkhorn ic eps iters None None = Inr P0"
    and Q0: "sinkhorn tc eps iters None None = Inr Q0"
    and P: "P = (if sg then ssub (smul (row_normalize P0) (Fin 2)) (Fin 1) else row_normalize P0)"
    and Q: "Q = (if sg then ssub (smul (row_normalize Q0) (Fin 2)) (Fin 1) else row_normalize Q0)"
    by blast
  show "finite_tensor P \<Longrightarrow>
           (if sg then entries_between (- 1) 1 P
            else entries_between 0 1 P \<and> rows_sum_to_one P)"
    by (rule target_finite_props[OF P0 P])
  show "finite_tensor Q \<Longrightarrow>
           (if sg then entries_between (- 1) 1 Q
            else entries_between 0 1 Q \<and> rows_sum_to_one Q)"
    by (rule target_finite_props[OF Q0 Q])
qed

subsection \<open>Evaluations of sinkhorn at concrete inputs\<close>

lemma funpow_fixed: "f x = x \<Longrightarrow> (f ^^ k) x = x"
  by (induction k) simp_all

lemmas unfold_spec =
  spec_q0_def spec_row_step_def spec_col_step_def spec_marginal_def total_sum_def
  row_sum_def col_sum_def row_normalize_def mk2_def at2_def row2_def col2_def
  inf_of_sign_def Let_def

lemma spec_iterate_fixed:
  assumes "spec_q0 cost eps = q"
      and "spec_col_step (spec_marginal (ncols cost) None)
             (spec_row_step (spec_marginal (nrows cost) None) q) = q"
  shows "spec_iterate cost eps k None None = q"
  unfolding spec_iterate_def assms(1) by (rule funpow_fixed) (rule assms(2))

lemma sinkhorn_iterate_zero12:
  "sinkhorn_iterate (Tensor2 1 2 [[Fin 0, Fin 0]]) (Fin 1) 1 None None
     = Inr (Tensor2 1 2 [[Fin (1 / 2), Fin (1 / 2)]])"
proof -
  have "spec_iterate (Tensor2 1 2 [[Fin 0, Fin 0]]) (Fin 1) (nat 1) None None
          = Tensor2 1 2 [[Fin (1 / 2), Fin (1 / 2)]]"
    by (simp add: spec_iterate_def unfold_spec eval_nat_numeral)
  then show ?thesis
    by (subst sinkhorn_iterate_spec) (simp_all add: marginal_admissible_def)
qed

lemma sinkhorn_zero12:
  "sinkhorn (Tensor2 1 2 [[Fin 0, Fin 0]]) (Fin 1) 1 None None
     = Inr (Tensor2 1 2 [[Fin (1 / 2), Fin (1 / 2)]])"
proof -
  have "row_normalize (Tensor2 1 2 [[Fin (1 / 2), Fin (1 / 2)]])
          = Tensor2 1 2 [[Fin (1 / 2), Fin (1 / 2)]]"
    by (simp add: unfold_spec eval_nat_numeral)
  then show ?thesis
    by (simp only: sinkhorn_eq sinkhorn_iterate_zero12 ebind_Inr)
qed

lemma finite_literal12: "finite_tensor (Tensor2 1 2 [[Fin a, Fin b]])"
  by (simp add: finite_tensor_def at2_def less_Suc_eq eval_nat_numeral)

lemma finite_literal22: "finite_tensor (Tensor2 2 2 [[Fin a, Fin b], [Fin c, Fin d]])"
  by (auto simp add: finite_tensor_def at2_def less_Suc_eq eval_nat_numeral)

lemma sinkhorn_underflow12:
  "sinkhorn (Tensor2 1 2 [[Fin 0, Fin 6]]) (Fin (1 / 20)) 1 None None
     = Inr (Tensor2 1 2 [[NaN, NaN]])"
proof -
  have "spec_iterate (Tensor2 1 2 [[Fin 0, Fin 6]]) (Fin (1 / 20)) (nat 1) None None
          = Tensor2 1 2 [[Fin (1 / 2), NaN]]"
    by (simp add: spec_iterate_def unfold_spec eval_nat_numeral fexp_underflow)
  moreover have "row_normalize (Tensor2 1 2 [[Fin (1 / 2), NaN]]) = Tensor2 1 2 [[NaN, NaN]]"
    by (simp add: unfold_spec eval_nat_numeral)
  ultimately show ?thesis
    by (simp add: sinkhorn_uniform)
qed

lemma sinkhorn_underflow22:
  "sinkhorn (Tensor2 2 2 [[Fin 0, Fin 10], [Fin 10, Fin 0]]) (Fin (1 / 20)) 5 None None
     = Inr (Tensor2 2 2 [[Fin 1, Fin 0], [Fin 0, Fin 1]])"
proof -
  let ?q = "Tensor2 2 2 [[Fin (1 / 2), Fin 0], [Fin 0, Fin (1 / 2)]]"
  have "spec_iterate (Tensor2 2 2 [[Fin 0, Fin 10], [Fin 10, Fin 0]]) (Fin (1 / 20)) (nat 5)
          None None = ?q"
    by (rule spec_iterate_fixed)
       (simp_all add: unfold_spec eval_nat_numeral fexp_underflow)
  moreover have "row_normalize ?q = Tensor2 2 2 [[Fin 1, Fin 0], [Fin 0, Fin 1]]"
    by (simp add: unfold_spec eval_nat_numeral)
  ultimately show ?thesis
    by (simp add: sinkhorn_uniform)
qed

lemma sinkhorn_underflow11:
  "sinkhorn (Tensor2 1 1 [[Fin 197]]) (Fin (1 / 20)) 5 None None = Inr (Tensor2 1 1 [[NaN]])"
proof -
  have "spec_iterate (Tensor2 1 1 [[Fin 197]]) (Fin (1 / 20)) (nat 5) None None
          = Tensor2 1 1 [[NaN]]"
    by (rule spec_iterate_fixed)
       (simp_all add: unfold_spec fexp_underflow)
  moreover have "row_normalize (Tensor2 1 1 [[NaN]]) = Tensor2 1 1 [[NaN]]"
    by (simp add: unfold_spec)
  ultimately show ?thesis
    by (simp add: sinkhorn_uniform)
qed

lemma sinkhorn_diag22:
  "sinkhorn (Tensor2 2 2 [[Fin 197, Fin 0], [Fin 0, Fin 197]]) (Fin (1 / 20)) 5 None None
     = Inr (Tensor2 2 2 [[Fin 0, Fin 1], [Fin 1, Fin 0]])"
proof -
  let ?q = "Tensor2 2 2 [[Fin 0, Fin (1 / 2)], [Fin (1 / 2), Fin 0]]"
  have "spec_iterate (Tensor2 2 2 [[Fin 197, Fin 0], [Fin 0, Fin 197]]) (Fin (1 / 20)) (nat 5)
          None None = ?q"
    by (rule spec_iterate_fixed)
       (simp_all add: unfold_spec eval_nat_numeral fexp_underflow)
  moreover have "row_normalize ?q = Tensor2 2 2 [[Fin 0, Fin 1], [Fin 1, Fin 0]]"
    by (simp add: unfold_spec eval_nat_numeral)
  ultimately show ?thesis
    by (simp add: sinkhorn_uniform)
qed

lemmas unfold_teacher =
  compute_similarities_def torch_matmul_def torch_t_def dot_def
  torch_eye_def smul_def ssub_def tneg_def tmap_def bop_def
  bdim_def bat_def mk2_def at2_def row2_def col2_def
  fsub_def inf_of_sign_def Let_def

lemma teacher_one_by_one:
  "compute_teacher_targets (Tensor2 1 1 [[Fin 1]]) (Tensor2 1 1 [[Fin 1]])
     (Fin 1) (Fin 1) (Fin (1 / 20)) 5 (Fin 1) sg
   = Inr (Tensor2 1 1 [[NaN]], Tensor2 1 1 [[NaN]])"
proof -
  have "row_normalize (Tensor2 1 1 [[NaN]]) = Tensor2 1 1 [[NaN]]"
    by (simp add: unfold_spec)
  with sinkhorn_underflow11 show ?thesis
    unfolding compute_teacher_targets_unfold
    by (simp add: unfold_teacher)
qed

lemma teacher_identity22:
  "compute_teacher_targets (Tensor2 2 2 [[Fin 1, Fin 0], [Fin 0, Fin 1]])
     (Tensor2 2 2 [[Fin 1, Fin 0], [Fin 0, Fin 1]])
     (Fin 1) (Fin 1) (Fin (1 / 20)) 5 (Fin 1) sg
   = Inr (if sg then (Tensor2 2 2 [[Fin (- 1), Fin 1], [Fin 1, Fin (- 1)]],
                      Tensor2 2 2 [[Fin (- 1), Fin 1], [Fin 1, Fin (- 1)]])
          else (Tensor2 2 2 [[Fin 0, Fin 1], [Fin 1, Fin 0]],
                Tensor2 2 2 [[Fin 0, Fin 1], [Fin 1, Fin 0]]))"
proof -
  have "row_normalize (Tensor2 2 2 [[Fin 0, Fin 1], [Fin 1, Fin 0]])
          = Tensor2 2 2 [[Fin 0, Fin 1], [Fin 1, Fin 0]]"
    by (simp add: unfold_spec eval_nat_numeral)
  with sinkhorn_diag22 show ?thesis
    unfolding compute_teacher_targets_unfold
    by (simp add: unfold_teacher eval_nat_numeral)
qed

section \<open>The claims\<close>

subsection \<open>The final step of sinkhorn\<close>

text \<open>
  C1 (as amended). The final step of \<open>sinkhorn\<close> divides the iterated matrix by its
  sum over dimension 1. For a two-dimensional cost matrix dimension 1 is the last axis:
  every element of the returned matrix is the element of the iterate divided by the sum
  of its own row, a row normalization and not a division by the sum over axis -2. The
  indices 1 and -2 name the same axis exactly for tensors of rank 3, that is with one
  leading batch dimension.
\<close>

theorem sinkhorn_final_step:
  "sinkhorn cost_mat eps niter r_prob c_prob
     = ebind (sinkhorn_iterate cost_mat eps niter r_prob c_prob)
         (\<lambda>q. Inr (mk2 (nrows q) (ncols q) (\<lambda>i j. fdiv (at2 q i j) (fsum (row2 q i)))))
   \<and> resolve_dim 2 1 = resolve_dim 2 (- 1)
   \<and> ((2 \<le> rank \<and> resolve_dim rank 1 = resolve_dim rank (- 2)) \<longleftrightarrow> rank = 3)"
proof (intro conjI)
  show "sinkhorn cost_mat eps niter r_prob c_prob
     = ebind (sinkhorn_iterate cost_mat eps niter r_prob c_prob)
         (\<lambda>q. Inr (mk2 (nrows q) (ncols q) (\<lambda>i j. fdiv (at2 q i j) (fsum (row2 q i)))))"
    by (simp add: sinkhorn_eq row_normalize_def row_sum_def)
  show "resolve_dim 2 1 = resolve_dim 2 (- 1)"
    by (simp add: resolve_dim_def)
  show "(2 \<le> rank \<and> resolve_dim rank 1 = resolve_dim rank (- 2)) \<longleftrightarrow> rank = 3"
    by (auto simp add: resolve_dim_def)
qed

text \<open>
  C1 as stated fails on the \<open>1 \<times> 2\<close> cost matrix of zeros with \<open>eps = 1\<close> and one
  iteration: the iterate is \<open>[[1/2, 1/2]]\<close> and \<open>sinkhorn\<close> returns it unchanged,
  while dividing it by its sum over axis -2 gives \<open>[[1, 1]]\<close>.
\<close>

theorem sinkhorn_final_axis_counterexample:
  "sinkhorn_iterate (Tensor2 1 2 [[Fin 0, Fin 0]]) (Fin 1) 1 None None
     = Inr (Tensor2 1 2 [[Fin (1 / 2), Fin (1 / 2)]])
   \<and> sinkhorn (Tensor2 1 2 [[Fin 0, Fin 0]]) (Fin 1) 1 None None
     = Inr (Tensor2 1 2 [[Fin (1 / 2), Fin (1 / 2)]])
   \<and> ebind (torch_sum (- 2) (Tensor2 1 2 [[Fin (1 / 2), Fin (1 / 2)]]))
        (bop fdiv (Tensor2 1 2 [[Fin (1 / 2), Fin (1 / 2)]]))
     = Inr (Tensor2 1 2 [[Fin 1, Fin 1]])"
proof -
  have "ebind (torch_sum (- 2) (Tensor2 1 2 [[Fin (1 / 2), Fin (1 / 2)]]))
        (bop fdiv (Tensor2 1 2 [[Fin (1 / 2), Fin (1 / 2)]]))
     = Inr (Tensor2 1 2 [[Fin 1, Fin 1]])"
    by (simp add: sum_axis_def bop_def bdim_def bat_def mk2_def at2_def col2_def
        eval_nat_numeral)
  then show ?thesis
    using sinkhorn_iterate_zero12 sinkhorn_zero12 by simp
qed

subsection \<open>The similarity matrices\<close>

text \<open>
  C8. For image and text embedding batches of the same embedding dimensionality,
  \<open>compute_similarities\<close> returns \<open>I \<cdot> I\<^sup>T\<close>, \<open>T \<cdot> T\<^sup>T\<close>, \<open>I \<cdot> T\<^sup>T\<close> and the
  transpose of the latter; the first two are symmetric matrices.
\<close>

theorem compute_similarities_products:
  assumes "ncols i_emb = ncols t_emb"
  shows "compute_similarities i_emb t_emb
           = Inr (spec_gram i_emb i_emb, spec_gram t_emb t_emb, spec_gram i_emb t_emb,
                  torch_t (spec_gram i_emb t_emb))
         \<and> symmetric2 (spec_gram i_emb i_emb) \<and> symmetric2 (spec_gram t_emb t_emb)"
  using assms by (simp add: compute_similarities_eq torch_t_gram symmetric_gram)

text \<open>The theorem at two \<open>2 \<times> 3\<close> batches, with the four products computed.\<close>

theorem compute_similarities_products_witness:
  "ncols (Tensor2 2 3 [[Fin 1, Fin 2, Fin 3], [Fin 4, Fin 5, Fin 6]])
     = ncols (Tensor2 2 3 [[Fin 1, Fin 0, Fin 0], [Fin 0, Fin 1, Fin 0]])
   \<and> compute_similarities (Tensor2 2 3 [[Fin 1, Fin 2, Fin 3], [Fin 4, Fin 5, Fin 6]])
        (Tensor2 2 3 [[Fin 1, Fin 0, Fin 0], [Fin 0, Fin 1, Fin 0]])
       = Inr (Tensor2 2 2 [[Fin 14, Fin 32], [Fin 32, Fin 77]],
              Tensor2 2 2 [[Fin 1, Fin 0], [Fin 0, Fin 1]],
              Tensor2 2 2 [[Fin 1, Fin 2], [Fin 4, Fin 5]],
              Tensor2 2 2 [[Fin 1, Fin 4], [Fin 2, Fin 5]])"
  using compute_similarities_products
    [of "Tensor2 2 3 [[Fin 1, Fin 2, Fin 3], [Fin 4, Fin 5, Fin 6]]"
        "Tensor2 2 3 [[Fin 1, Fin 0, Fin 0], [Fin 0, Fin 1, Fin 0]]"]
  by (simp add: spec_gram_def torch_t_def mk2_def at2_def eval_nat_numeral)

subsection \<open>The Sinkhorn iterate\<close>

text \<open>
  C9. With admissible marginals, the value of \<open>q\<close> at the end of the loop of
  \<open>sinkhorn\<close> is the iterate of the specification: the exponentiated cost matrix
  divided by its total sum, then \<open>niter\<close> times a row step with the target row marginal
  followed by a column step with the target column marginal, the target being the
  normalized supplied marginal or the uniform value \<open>1 / M\<close> (\<open>1 / N\<close>).
\<close>

theorem sinkhorn_iterate_as_specified:
  assumes "marginal_admissible (nrows cost_mat) r_prob"
      and "marginal_admissible (ncols cost_mat) c_prob"
  shows "sinkhorn_iterate cost_mat eps niter r_prob c_prob
           = Inr (spec_iterate cost_mat eps (nat niter) r_prob c_prob)"
  using assms by (rule sinkhorn_iterate_spec)

text \<open>
  The theorem at the \<open>1 \<times> 2\<close> cost matrix of zeros with the row marginal \<open>[2]\<close>
  supplied and the column marginal left out.
\<close>

theorem sinkhorn_iterate_as_specified_witness:
  "marginal_admissible (nrows (Tensor2 1 2 [[Fin 0, Fin 0]])) (Some [Fin 2])
   \<and> marginal_admissible (ncols (Tensor2 1 2 [[Fin 0, Fin 0]])) None
   \<and> sinkhorn_iterate (Tensor2 1 2 [[Fin 0, Fin 0]]) (Fin 1) 1 (Some [Fin 2]) None
        = Inr (Tensor2 1 2 [[Fin (1 / 2), Fin (1 / 2)]])"
proof -
  have r: "marginal_admissible (nrows (Tensor2 1 2 [[Fin 0, Fin 0]])) (Some [Fin 2])"
    by (simp add: marginal_admissible_def normalize1_def)
  have c: "marginal_admissible (ncols (Tensor2 1 2 [[Fin 0, Fin 0]])) None"
    by (simp add: marginal_admissible_def)
  have "spec_iterate (Tensor2 1 2 [[Fin 0, Fin 0]]) (Fin 1) (nat 1) (Some [Fin 2]) None
          = Tensor2 1 2 [[Fin (1 / 2), Fin (1 / 2)]]"
    by (simp add: spec_iterate_def spec_q0_def spec_row_step_def spec_col_step_def
        spec_marginal_def total_sum_def row_sum_def col_sum_def mk2_def at2_def row2_def
        col2_def eval_nat_numeral Let_def)
  with sinkhorn_iterate_as_specified[OF r c, of "Fin 1" 1] r c show ?thesis by simp
qed

subsection \<open>Row sums of the Sinkhorn output\<close>

text \<open>
  C3 (as amended). For every two-dimensional cost matrix, every \<open>eps\<close> and every
  iteration count, with no marginals supplied: \<open>sinkhorn\<close> returns a matrix of the shape
  of the cost matrix whenever the cost matrix is not empty (on an empty one \<^verbatim>\<open>1 / m\<close>
  or \<^verbatim>\<open>1 / n\<close> raises), and whenever the returned matrix holds no NaN and no Inf
  each of its rows sums to 1. In the arithmetic of the model the sum is 1 itself.
\<close>

theorem sinkhorn_rows_sum_to_one:
  "(0 < nrows cost_mat \<and> 0 < ncols cost_mat \<longrightarrow>
      (\<exists>R. sinkhorn cost_mat eps niter None None = Inr R
           \<and> nrows R = nrows cost_mat \<and> ncols R = ncols cost_mat))
   \<and> (\<forall>R. sinkhorn cost_mat eps niter None None = Inr R \<and> finite_tensor R
           \<longrightarrow> rows_sum_to_one R)"
proof (intro conjI impI allI)
  assume "0 < nrows cost_mat \<and> 0 < ncols cost_mat"
  then show "\<exists>R. sinkhorn cost_mat eps niter None None = Inr R
                 \<and> nrows R = nrows cost_mat \<and> ncols R = ncols cost_mat"
    by (simp add: sinkhorn_uniform)
next
  fix R assume "sinkhorn cost_mat eps niter None None = Inr R \<and> finite_tensor R"
  then show "rows_sum_to_one R"
    using sinkhorn_finite_props(1) by blast
qed

text \<open>
  The theorem at the cost matrix \<open>[[0, 10], [10, 0]]\<close> with \<open>eps = 0.05\<close> and five
  iterations, where the returned matrix is \<open>[[1, 0], [0, 1]]\<close>, and at the \<open>1 \<times> 2\<close>
  cost matrix of zeros with \<open>eps = 1\<close> and one iteration, where it is \<open>[[1/2, 1/2]]\<close>.
\<close>

theorem sinkhorn_rows_sum_to_one_witness:
  "0 < nrows (Tensor2 2 2 [[Fin 0, Fin 10], [Fin 10, Fin 0]])
   \<and> 0 < ncols (Tensor2 2 2 [[Fin 0, Fin 10], [Fin 10, Fin 0]])
   \<and> sinkhorn (Tensor2 2 2 [[Fin 0, Fin 10], [Fin 10, Fin 0]]) (Fin (1 / 20)) 5 None None
        = Inr (Tensor2 2 2 [[Fin 1, Fin 0], [Fin 0, Fin 1]])
   \<and> finite_tensor (Tensor2 2 2 [[Fin 1, Fin 0], [Fin 0, Fin 1]])
   \<and> rows_sum_to_one (Tensor2 2 2 [[Fin 1, Fin 0], [Fin 0, Fin 1]])
   \<and> sinkhorn (Tensor2 1 2 [[Fin 0, Fin 0]]) (Fin 1) 1 None None
        = Inr (Tensor2 1 2 [[Fin (1 / 2), Fin (1 / 2)]])
   \<and> finite_tensor (Tensor2 1 2 [[Fin (1 / 2), Fin (1 / 2)]])
   \<and> rows_sum_to_one (Tensor2 1 2 [[Fin (1 / 2), Fin (1 / 2)]])"
  using sinkhorn_rows_sum_to_one
          [of "Tensor2 2 2 [[Fin 0, Fin 10], [Fin 10, Fin 0]]" "Fin (1 / 20)" 5]
        sinkhorn_rows_sum_to_one[of "Tensor2 1 2 [[Fin 0, Fin 0]]" "Fin 1" 1]
        sinkhorn_underflow22 sinkhorn_zero12
        finite_literal22[of 1 0 0 1] finite_literal12[of "1 / 2" "1 / 2"]
  by simp

text \<open>
  C3 as stated fails on the cost matrix \<open>[[0, 6]]\<close> with \<open>eps = 0.05\<close> and one
  iteration: \<open>exp (-6 / 0.05) = exp (-120)\<close> underflows to 0, the second column of
  \<open>q\<close> then sums to 0, the column step divides 0 by 0, and the returned row is
  \<open>[NaN, NaN]\<close>, whose sum is NaN.
\<close>

theorem sinkhorn_underflow_counterexample:
  "finite_tensor (Tensor2 1 2 [[Fin 0, Fin 6]]) \<and> (0::real) < 1 / 20 \<and> (1::int) \<le> 1
   \<and> sinkhorn (Tensor2 1 2 [[Fin 0, Fin 6]]) (Fin (1 / 20)) 1 None None
        = Inr (Tensor2 1 2 [[NaN, NaN]])
   \<and> row_sum (Tensor2 1 2 [[NaN, NaN]]) 0 = NaN
   \<and> \<not> rows_sum_to_one (Tensor2 1 2 [[NaN, NaN]])"
  using sinkhorn_underflow12 finite_literal12[of 0 6]
  by (simp add: rows_sum_to_one_def row_sum_def row2_def at2_def eval_nat_numeral)

subsection \<open>The assertion on the marginals\<close>

text \<open>
  C4. \<open>sinkhorn\<close> fails its assertion (the NumericalError of the specification) if
  and only if a supplied row or column marginal, divided by its sum, holds a NaN or an
  Inf; with no marginal supplied the assertion never fails. The direction from the
  marginal to the failure takes a cost matrix with at least one row when the row
  marginal is left out, so that \<^verbatim>\<open>1 / m\<close> is defined before the column marginal
  is looked at.
\<close>

theorem sinkhorn_assertion_iff:
  "(sinkhorn cost_mat eps niter r_prob c_prob = Inl AssertionError \<longrightarrow>
      (\<exists>r. r_prob = Some r
           \<and> (list_ex is_nan (normalize1 r) \<or> list_ex is_inf (normalize1 r)))
      \<or> (\<exists>c. c_prob = Some c
           \<and> (list_ex is_nan (normalize1 c) \<or> list_ex is_inf (normalize1 c))))
   \<and> ((r_prob = None \<longrightarrow> 0 < nrows cost_mat) \<longrightarrow>
      (\<exists>r. r_prob = Some r
           \<and> (list_ex is_nan (normalize1 r) \<or> list_ex is_inf (normalize1 r)))
      \<or> (\<exists>c. c_prob = Some c
           \<and> (list_ex is_nan (normalize1 c) \<or> list_ex is_inf (normalize1 c)))
      \<longrightarrow> sinkhorn cost_mat eps niter r_prob c_prob = Inl AssertionError)
   \<and> sinkhorn cost_mat eps niter None None \<noteq> Inl AssertionError"
proof (intro conjI impI)
  show "sinkhorn cost_mat eps niter None None \<noteq> Inl AssertionError"
    unfolding sinkhorn_eq sinkhorn_iterate_unfold
    by (simp add: py_div_def sinkhorn_rest_not_assertion)
next
  assume "sinkhorn cost_mat eps niter r_prob c_prob = Inl AssertionError"
  then show "(\<exists>r. r_prob = Some r
           \<and> (list_ex is_nan (normalize1 r) \<or> list_ex is_inf (normalize1 r)))
      \<or> (\<exists>c. c_prob = Some c
           \<and> (list_ex is_nan (normalize1 c) \<or> list_ex is_inf (normalize1 c)))"
    unfolding sinkhorn_eq sinkhorn_iterate_unfold
    by (cases r_prob; cases c_prob)
       (auto simp add: py_div_def has_nan_or_inf_last has_nan_or_inf_first
          sinkhorn_rest_not_assertion split: if_splits)
next
  assume "r_prob = None \<longrightarrow> 0 < nrows cost_mat"
    and "(\<exists>r. r_prob = Some r
           \<and> (list_ex is_nan (normalize1 r) \<or> list_ex is_inf (normalize1 r)))
      \<or> (\<exists>c. c_prob = Some c
           \<and> (list_ex is_nan (normalize1 c) \<or> list_ex is_inf (normalize1 c)))"
  then show "sinkhorn cost_mat eps niter r_prob c_prob = Inl AssertionError"
    unfolding sinkhorn_eq sinkhorn_iterate_unfold
    by (cases r_prob; cases c_prob)
       (auto simp add: py_div_def has_nan_or_inf_last has_nan_or_inf_first)
qed

text \<open>
  The theorem at the all-zero row marginal \<open>[0]\<close>, whose normalized form is \<open>[NaN]\<close>,
  and at no marginals.
\<close>

theorem sinkhorn_assertion_iff_witness:
  "0 < nrows (Tensor2 1 2 [[Fin 0, Fin 0]])
   \<and> normalize1 [Fin 0] = [NaN]
   \<and> sinkhorn (Tensor2 1 2 [[Fin 0, Fin 0]]) (Fin 1) 1 (Some [Fin 0]) None = Inl AssertionError
   \<and> sinkhorn (Tensor2 1 2 [[Fin 0, Fin 0]]) (Fin 1) 1 None None \<noteq> Inl AssertionError"
  using sinkhorn_assertion_iff[of "Tensor2 1 2 [[Fin 0, Fin 0]]" "Fin 1" 1 "Some [Fin 0]" None]
  by (simp add: normalize1_def)

subsection \<open>The teacher targets\<close>

text \<open>
  C2 (as amended). For every pair of teacher image and text embedding batches, every
  choice of coefficients, \<open>eps\<close> and iteration count: for each of the two matrices
  returned by \<open>compute_teacher_targets\<close>, whenever it holds no NaN and no Inf, with
  \<open>sigmoid_target\<close> false each of its rows sums to 1, and with \<open>sigmoid_target\<close> true
  every entry of it lies in \<open>[-1, 1]\<close>. For batches of the same shape with at least one row the two matrices are
  returned (on empty batches \<^verbatim>\<open>1 / m\<close> raises).
\<close>

theorem teacher_targets_guarantee:
  "(nrows images = nrows texts \<and> ncols images = ncols texts \<and> 0 < nrows images \<longrightarrow>
      (\<exists>P Q. compute_teacher_targets images texts ii_coeff tt_coeff
                eps iters remove_diag sigmoid_target = Inr (P, Q)))
   \<and> (\<forall>P Q. compute_teacher_targets images texts ii_coeff tt_coeff
                eps iters remove_diag sigmoid_target = Inr (P, Q) \<longrightarrow>
          (finite_tensor P \<longrightarrow>
             (if sigmoid_target then entries_between (- 1) 1 P else rows_sum_to_one P))
          \<and> (finite_tensor Q \<longrightarrow>
             (if sigmoid_target then entries_between (- 1) 1 Q else rows_sum_to_one Q)))"
proof (intro conjI impI allI)
  assume "nrows images = nrows texts \<and> ncols images = ncols texts \<and> 0 < nrows images"
  then show "\<exists>P Q. compute_teacher_targets images texts ii_coeff tt_coeff
                eps iters remove_diag sigmoid_target = Inr (P, Q)"
    by (intro teacher_total) simp_all
next
  fix P Q
  assume R: "compute_teacher_targets images texts ii_coeff tt_coeff
                eps iters remove_diag sigmoid_target = Inr (P, Q)"
  show "if sigmoid_target then entries_between (- 1) 1 P else rows_sum_to_one P"
    if "finite_tensor P"
    using teacher_finite_props(1)[OF R that] by (cases sigmoid_target) simp_all
  show "if sigmoid_target then entries_between (- 1) 1 Q else rows_sum_to_one Q"
    if "finite_tensor Q"
    using teacher_finite_props(2)[OF R that] by (cases sigmoid_target) simp_all
qed

text \<open>
  The theorem at the \<open>2 \<times> 2\<close> identity for both batches, with both coefficients 1,
  \<open>eps = 0.05\<close>, five iterations and \<open>remove_diag = 1\<close>, in both modes: both cost
  matrices are \<open>[[197, 0], [0, 197]]\<close>, the targets are \<open>[[0, 1], [1, 0]]\<close> without
  \<open>sigmoid_target\<close> and \<open>[[-1, 1], [1, -1]]\<close> with it.
\<close>

theorem teacher_targets_guarantee_witness:
  "nrows (Tensor2 2 2 [[Fin 1, Fin 0], [Fin 0, Fin 1]])
     = nrows (Tensor2 2 2 [[Fin 1, Fin 0], [Fin 0, Fin 1]])
   \<and> 0 < nrows (Tensor2 2 2 [[Fin 1, Fin 0], [Fin 0, Fin 1]])
   \<and> compute_teacher_targets (Tensor2 2 2 [[Fin 1, Fin 0], [Fin 0, Fin 1]])
        (Tensor2 2 2 [[Fin 1, Fin 0], [Fin 0, Fin 1]])
        (Fin 1) (Fin 1) (Fin (1 / 20)) 5 (Fin 1) False
       = Inr (Tensor2 2 2 [[Fin 0, Fin 1], [Fin 1, Fin 0]],
              Tensor2 2 2 [[Fin 0, Fin 1], [Fin 1, Fin 0]])
   \<and> finite_tensor (Tensor2 2 2 [[Fin 0, Fin 1], [Fin 1, Fin 0]])
   \<and> rows_sum_to_one (Tensor2 2 2 [[Fin 0, Fin 1], [Fin 1, Fin 0]])
   \<and> compute_teacher_targets (Tensor2 2 2 [[Fin 1, Fin 0], [Fin 0, Fin 1]])
        (Tensor2 2 2 [[Fin 1, Fin 0], [Fin 0, Fin 1]])
        (Fin 1) (Fin 1) (Fin (1 / 20)) 5 (Fin 1) True
       = Inr (Tensor2 2 2 [[Fin (- 1), Fin 1], [Fin 1, Fin (- 1)]],
              Tensor2 2 2 [[Fin (- 1), Fin 1], [Fin 1, Fin (- 1)]])
   \<and> finite_tensor (Tensor2 2 2 [[Fin (- 1), Fin 1], [Fin 1, Fin (- 1)]])
   \<and> entries_between (- 1) 1 (Tensor2 2 2 [[Fin (- 1), Fin 1], [Fin 1, Fin (- 1)]])"
  using teacher_targets_guarantee
          [of "Tensor2 2 2 [[Fin 1, Fin 0], [Fin 0, Fin 1]]"
              "Tensor2 2 2 [[Fin 1, Fin 0], [Fin 0, Fin 1]]"
              "Fin 1" "Fin 1" "Fin (1 / 20)" 5 "Fin 1" False]
        teacher_targets_guarantee
          [of "Tensor2 2 2 [[Fin 1, Fin 0], [Fin 0, Fin 1]]"
              "Tensor2 2 2 [[Fin 1, Fin 0], [Fin 0, Fin 1]]"
              "Fin 1" "Fin 1" "Fin (1 / 20)" 5 "Fin 1" True]
        teacher_identity22[of False] teacher_identity22[of True]
        finite_literal22[of 0 1 1 0] finite_literal22[of "- 1" 1 1 "- 1"]
  by simp

text \<open>
  C2 as stated fails on the \<open>1 \<times> 1\<close> batches \<open>[[1]]\<close> with both coefficients 1,
  \<open>eps = 0.05\<close>, five iterations and \<open>remove_diag = 1\<close>: both cost matrices are
  \<open>[[197]]\<close>, \<open>exp (-197 / 0.05)\<close> underflows to 0, the division by the total sum is
  \<open>0 / 0\<close>, and both returned matrices are \<open>[[NaN]]\<close> in either mode, so the row does not
  sum to 1 and the entry is not in \<open>[-1, 1]\<close>.
\<close>

theorem teacher_targets_underflow_counterexample:
  "compute_teacher_targets (Tensor2 1 1 [[Fin 1]]) (Tensor2 1 1 [[Fin 1]])
      (Fin 1) (Fin 1) (Fin (1 / 20)) 5 (Fin 1) False
     = Inr (Tensor2 1 1 [[NaN]], Tensor2 1 1 [[NaN]])
   \<and> \<not> rows_sum_to_one (Tensor2 1 1 [[NaN]])
   \<and> compute_teacher_targets (Tensor2 1 1 [[Fin 1]]) (Tensor2 1 1 [[Fin 1]])
      (Fin 1) (Fin 1) (Fin (1 / 20)) 5 (Fin 1) True
     = Inr (Tensor2 1 1 [[NaN]], Tensor2 1 1 [[NaN]])
   \<and> \<not> entries_between (- 1) 1 (Tensor2 1 1 [[NaN]])"
  using teacher_one_by_one[of False] teacher_one_by_one[of True]
  by (simp add: rows_sum_to_one_def row_sum_def row2_def entries_between_def at2_def)

subsection \<open>Range of the targets\<close>

text \<open>
  C10 (as amended). For every cost matrix, every \<open>eps\<close> and every iteration count, with
  no marginals supplied, no entry of the matrix returned by \<open>sinkhorn\<close> is negative
  (an entry is a number from 0 on or NaN or \<open>+\<close>Inf; it can be 0), and whenever the
  returned matrix holds no NaN and no Inf every entry lies in \<open>[0, 1]\<close>. In non-sigmoid
  mode, for each of the two matrices returned by \<open>compute_teacher_targets\<close>, whenever it
  holds no NaN and no Inf every entry of it lies in \<open>[0, 1]\<close> and each of its rows sums
  to 1; for batches of the same shape with at least one row the two matrices are
  returned.
\<close>

theorem targets_are_probabilities:
  "(\<forall>R. sinkhorn cost_mat eps niter None None = Inr R \<longrightarrow>
          not_negative_tensor R \<and> (finite_tensor R \<longrightarrow> entries_between 0 1 R))
   \<and> (nrows images = nrows texts \<and> ncols images = ncols texts \<and> 0 < nrows images \<longrightarrow>
        (\<exists>P Q. compute_teacher_targets images texts ii_coeff tt_coeff
                  eps' iters remove_diag False = Inr (P, Q)))
   \<and> (\<forall>P Q. compute_teacher_targets images texts ii_coeff tt_coeff
                  eps' iters remove_diag False = Inr (P, Q) \<longrightarrow>
          (finite_tensor P \<longrightarrow> entries_between 0 1 P \<and> rows_sum_to_one P)
          \<and> (finite_tensor Q \<longrightarrow> entries_between 0 1 Q \<and> rows_sum_to_one Q))"
proof (intro conjI impI allI)
  fix R assume R: "sinkhorn cost_mat eps niter None None = Inr R"
  show "not_negative_tensor R"
    by (rule sinkhorn_returned(6)[OF R])
  show "entries_between 0 1 R" if "finite_tensor R"
    by (rule sinkhorn_finite_props(2)[OF R that])
next
  assume "nrows images = nrows texts \<and> ncols images = ncols texts \<and> 0 < nrows images"
  then show "\<exists>P Q. compute_teacher_targets images texts ii_coeff tt_coeff
                  eps' iters remove_diag False = Inr (P, Q)"
    by (intro teacher_total) simp_all
next
  fix P Q
  assume R: "compute_teacher_targets images texts ii_coeff tt_coeff
                  eps' iters remove_diag False = Inr (P, Q)"
  show "entries_between 0 1 P" "rows_sum_to_one P" if "finite_tensor P"
    using teacher_finite_props(1)[OF R that] by simp_all
  show "entries_between 0 1 Q" "rows_sum_to_one Q" if "finite_tensor Q"
    using teacher_finite_props(2)[OF R that] by simp_all
qed

text \<open>
  The theorem at the cost matrix \<open>[[197, 0], [0, 197]]\<close> with \<open>eps = 0.05\<close> and five
  iterations, where \<open>sinkhorn\<close> returns \<open>[[0, 1], [1, 0]]\<close>, and at the \<open>2 \<times> 2\<close>
  identity for both batches with both coefficients 1 and \<open>remove_diag = 1\<close>, which
  gives that cost matrix and the targets \<open>[[0, 1], [1, 0]]\<close>.
\<close>

theorem targets_are_probabilities_witness:
  "sinkhorn (Tensor2 2 2 [[Fin 197, Fin 0], [Fin 0, Fin 197]]) (Fin (1 / 20)) 5 None None
        = Inr (Tensor2 2 2 [[Fin 0, Fin 1], [Fin 1, Fin 0]])
   \<and> not_negative_tensor (Tensor2 2 2 [[Fin 0, Fin 1], [Fin 1, Fin 0]])
   \<and> finite_tensor (Tensor2 2 2 [[Fin 0, Fin 1], [Fin 1, Fin 0]])
   \<and> entries_between 0 1 (Tensor2 2 2 [[Fin 0, Fin 1], [Fin 1, Fin 0]])
   \<and> nrows (Tensor2 2 2 [[Fin 1, Fin 0], [Fin 0, Fin 1]])
       = nrows (Tensor2 2 2 [[Fin 1, Fin 0], [Fin 0, Fin 1]])
   \<and> 0 < nrows (Tensor2 2 2 [[Fin 1, Fin 0], [Fin 0, Fin 1]])
   \<and> compute_teacher_targets (Tensor2 2 2 [[Fin 1, Fin 0], [Fin 0, Fin 1]])
        (Tensor2 2 2 [[Fin 1, Fin 0], [Fin 0, Fin 1]])
        (Fin 1) (Fin 1) (Fin (1 / 20)) 5 (Fin 1) False
       = Inr (Tensor2 2 2 [[Fin 0, Fin 1], [Fin 1, Fin 0]],
              Tensor2 2 2 [[Fin 0, Fin 1], [Fin 1, Fin 0]])
   \<and> rows_sum_to_one (Tensor2 2 2 [[Fin 0, Fin 1], [Fin 1, Fin 0]])"
  using targets_are_probabilities
          [of "Tensor2 2 2 [[Fin 197, Fin 0], [Fin 0, Fin 197]]" "Fin (1 / 20)" 5
              "Tensor2 2 2 [[Fin 1, Fin 0], [Fin 0, Fin 1]]"
              "Tensor2 2 2 [[Fin 1, Fin 0], [Fin 0, Fin 1]]"
              "Fin 1" "Fin 1" "Fin (1 / 20)" 5 "Fin 1"]
        sinkhorn_diag22 teacher_identity22[of False] finite_literal22[of 0 1 1 0]
  by simp

text \<open>
  C10 as stated fails on the cost matrix \<open>[[0, 10], [10, 0]]\<close> with \<open>eps = 0.05\<close> and
  five iterations: \<open>exp (-10 / 0.05) = exp (-200)\<close> underflows to 0 and \<open>sinkhorn\<close>
  returns \<open>[[1, 0], [0, 1]]\<close>, whose off-diagonal entries are not strictly positive. In
  non-sigmoid mode \<open>compute_teacher_targets\<close> returns \<open>[[NaN]]\<close> twice on the
  \<open>1 \<times> 1\<close> batches \<open>[[1]]\<close> with both coefficients 1, \<open>eps = 0.05\<close> and
  \<open>remove_diag = 1\<close>: the entry is not in \<open>[0, 1]\<close> and the row does not sum to 1.
\<close>

theorem targets_zero_entry_counterexample:
  "finite_tensor (Tensor2 2 2 [[Fin 0, Fin 10], [Fin 10, Fin 0]])
   \<and> (0::real) < 1 / 20 \<and> (1::int) \<le> 5
   \<and> sinkhorn (Tensor2 2 2 [[Fin 0, Fin 10], [Fin 10, Fin 0]]) (Fin (1 / 20)) 5 None None
        = Inr (Tensor2 2 2 [[Fin 1, Fin 0], [Fin 0, Fin 1]])
   \<and> at2 (Tensor2 2 2 [[Fin 1, Fin 0], [Fin 0, Fin 1]]) 0 1 = Fin 0
   \<and> \<not> positive_tensor (Tensor2 2 2 [[Fin 1, Fin 0], [Fin 0, Fin 1]])
   \<and> compute_teacher_targets (Tensor2 1 1 [[Fin 1]]) (Tensor2 1 1 [[Fin 1]])
        (Fin 1) (Fin 1) (Fin (1 / 20)) 5 (Fin 1) False
       = Inr (Tensor2 1 1 [[NaN]], Tensor2 1 1 [[NaN]])
   \<and> \<not> entries_between 0 1 (Tensor2 1 1 [[NaN]])
   \<and> \<not> rows_sum_to_one (Tensor2 1 1 [[NaN]])"
proof -
  have "\<not> positive_tensor (Tensor2 2 2 [[Fin 1, Fin 0], [Fin 0, Fin 1]])"
    unfolding positive_tensor_def
    by (simp add: at2_def) (rule exI[of _ 0], simp, rule exI[of _ 1], simp)
  then show ?thesis
    using sinkhorn_underflow22 teacher_one_by_one[of False] finite_literal22[of 0 10 10 0]
    by (simp add: rows_sum_to_one_def row_sum_def row2_def entries_between_def at2_def)
qed

subsection \<open>The reduction argument of compute\_mse\_similarities\<close>

text \<open>
  C5. \<open>compute_mse_similarities\<close> raises its \<open>ValueError\<close> (the InvalidArgumentError
  of the specification), whose message names the allowed set \<open>REDUCTIONS\<close> and the
  argument given, if and only if the reduction argument is not one of the six strings
  mean, average, avg, sum, add, none; for each of the six it returns a value, the three
  similarity matrices being of shapes that \<^verbatim>\<open>MSELoss\<close> accepts with the reference
  matrix.
\<close>

theorem compute_mse_similarities_reduction_check:
  "(compute_mse_similarities a b c d reduction = Inl (ValueError REDUCTIONS reduction)
      \<longleftrightarrow> reduction \<notin> REDUCTIONS)
   \<and> ((\<exists>allowed given. compute_mse_similarities a b c d reduction
                           = Inl (ValueError allowed given))
      \<longleftrightarrow> reduction \<notin> REDUCTIONS)
   \<and> (reduction \<in> REDUCTIONS
        \<and> broadcastable a d \<and> broadcastable b d \<and> broadcastable c d
      \<longrightarrow> (\<exists>v. compute_mse_similarities a b c d reduction = Inr v))
   \<and> REDUCTIONS = {''mean'', ''average'', ''avg'', ''sum'', ''add'', ''none''}"
proof -
  have main: "(compute_mse_similarities a b c d reduction = Inl (ValueError S reduction)
      \<longleftrightarrow> reduction \<notin> S)
   \<and> ((\<exists>allowed given. compute_mse_similarities a b c d reduction
                           = Inl (ValueError allowed given))
      \<longleftrightarrow> reduction \<notin> S)
   \<and> (reduction \<in> S
        \<and> broadcastable a d \<and> broadcastable b d \<and> broadcastable c d
      \<longrightarrow> (\<exists>v. compute_mse_similarities a b c d reduction = Inr v))"
    if S: "S = REDUCTIONS" for S
  proof (cases "reduction \<in> S")
    case True
    then have T: "reduction \<in> REDUCTIONS" using S by simp
    have "compute_mse_similarities a b c d reduction \<noteq> Inl (ValueError allowed given)"
      for allowed given
      using compute_mse_similarities_valid_error[OF T, of a b c d "ValueError allowed given"]
      by blast
    with True compute_mse_similarities_valid[OF T, of a d b c] show ?thesis
      by blast
  next
    case False
    then have F: "reduction \<notin> REDUCTIONS" using S by simp
    with False compute_mse_similarities_invalid[OF F, of a b c d] S show ?thesis
      by blast
  qed
  note m = main[OF refl]
  show ?thesis
    by (rule conjI[OF m[THEN conjunct1] conjI[OF m[THEN conjunct2, THEN conjunct1]
          conjI[OF m[THEN conjunct2, THEN conjunct2] REDUCTIONS_def]]])
qed

text \<open>The theorem at \<open>1 \<times> 1\<close> matrices, with the arguments \<open>invalid\<close> and \<open>none\<close>.\<close>

theorem compute_mse_similarities_reduction_check_witness:
  "''invalid'' \<notin> REDUCTIONS
   \<and> compute_mse_similarities (Tensor2 1 1 [[Fin 1]]) (Tensor2 1 1 [[Fin 1]])
        (Tensor2 1 1 [[Fin 1]]) (Tensor2 1 1 [[Fin 0]]) ''invalid''
       = Inl (ValueError REDUCTIONS ''invalid'')
   \<and> ''none'' \<in> REDUCTIONS
   \<and> broadcastable (Tensor2 1 1 [[Fin 1]]) (Tensor2 1 1 [[Fin 0]])
   \<and> (\<exists>v. compute_mse_similarities (Tensor2 1 1 [[Fin 1]]) (Tensor2 1 1 [[Fin 1]])
        (Tensor2 1 1 [[Fin 1]]) (Tensor2 1 1 [[Fin 0]]) ''none'' = Inr v)"
proof -
  note inv = compute_mse_similarities_reduction_check
          [of "Tensor2 1 1 [[Fin 1]]" "Tensor2 1 1 [[Fin 1]]" "Tensor2 1 1 [[Fin 1]]"
              "Tensor2 1 1 [[Fin 0]]" "''invalid''"]
  note non = compute_mse_similarities_reduction_check
          [of "Tensor2 1 1 [[Fin 1]]" "Tensor2 1 1 [[Fin 1]]" "Tensor2 1 1 [[Fin 1]]"
              "Tensor2 1 1 [[Fin 0]]" "''none''"]
  have a: "compute_mse_similarities (Tensor2 1 1 [[Fin 1]]) (Tensor2 1 1 [[Fin 1]])
        (Tensor2 1 1 [[Fin 1]]) (Tensor2 1 1 [[Fin 0]]) ''invalid''
       = Inl (ValueError REDUCTIONS ''invalid'')"
    by (rule inv[THEN conjunct1, THEN iffD2, OF invalid_not_allowed])
  have b: "\<exists>v. compute_mse_similarities (Tensor2 1 1 [[Fin 1]]) (Tensor2 1 1 [[Fin 1]])
        (Tensor2 1 1 [[Fin 1]]) (Tensor2 1 1 [[Fin 0]]) ''none'' = Inr v"
    by (rule non[THEN conjunct2, THEN conjunct2, THEN conjunct1, THEN mp])
       (intro conjI reduction_names_member broadcastable_one_by_one)
  show ?thesis
    by (intro conjI invalid_not_allowed a reduction_names_member broadcastable_one_by_one b)
qed



subsection \<open>compute\_accuracy\<close>

text \<open>
  C7. For a square logits matrix and every \<open>batch_size\<close>, the value returned by
  \<open>compute_accuracy\<close> is \<open>(acc_i + acc_t) / 2 / batch_size\<close>, where \<open>acc_i\<close> counts the
  rows whose argmax is the row index and \<open>acc_t\<close> the columns whose argmax over the rows
  is the column index; a value is returned whenever the matrix has at least one row
  (\<^verbatim>\<open>torch.argmax\<close> rejects an empty dimension). For the \<open>4 \<times> 4\<close> identity and
  \<open>batch_size = 4\<close> the result is 1, for the \<open>4 \<times> 4\<close> reversed diagonal it is 0.
\<close>

theorem compute_accuracy_formula:
  assumes "nrows logits = ncols logits"
  shows "(0 < nrows logits \<longrightarrow>
            compute_accuracy logits batch_size
              = Inr (fdiv (fdiv (Fin (real (spec_acc_i logits + spec_acc_t logits))) (Fin 2))
                          (Fin (of_int batch_size))))
         \<and> (\<forall>v. compute_accuracy logits batch_size = Inr v \<longrightarrow>
                v = fdiv (fdiv (Fin (real (spec_acc_i logits + spec_acc_t logits))) (Fin 2))
                         (Fin (of_int batch_size)))
         \<and> compute_accuracy
              (Tensor2 4 4 [[Fin 1, Fin 0, Fin 0, Fin 0], [Fin 0, Fin 1, Fin 0, Fin 0],
                            [Fin 0, Fin 0, Fin 1, Fin 0], [Fin 0, Fin 0, Fin 0, Fin 1]]) 4
             = Inr (Fin 1)
         \<and> compute_accuracy
              (Tensor2 4 4 [[Fin 0, Fin 0, Fin 0, Fin 1], [Fin 0, Fin 0, Fin 1, Fin 0],
                            [Fin 0, Fin 1, Fin 0, Fin 0], [Fin 1, Fin 0, Fin 0, Fin 0]]) 4
             = Inr (Fin 0)"
proof (cases "0 < nrows logits")
  case True
  with compute_accuracy_square[OF assms True, of batch_size]
    accuracy_identity accuracy_reversed
  show ?thesis by simp
next
  case False
  then have "compute_accuracy logits batch_size = Inl IndexError"
    using assms by (intro compute_accuracy_empty) simp
  with False accuracy_identity accuracy_reversed show ?thesis by simp
qed

text \<open>The theorem at the \<open>4 \<times> 4\<close> identity, where both counts are 4.\<close>

theorem compute_accuracy_formula_witness:
  "nrows (Tensor2 4 4 [[Fin 1, Fin 0, Fin 0, Fin 0], [Fin 0, Fin 1, Fin 0, Fin 0],
                       [Fin 0, Fin 0, Fin 1, Fin 0], [Fin 0, Fin 0, Fin 0, Fin 1]])
     = ncols (Tensor2 4 4 [[Fin 1, Fin 0, Fin 0, Fin 0], [Fin 0, Fin 1, Fin 0, Fin 0],
                           [Fin 0, Fin 0, Fin 1, Fin 0], [Fin 0, Fin 0, Fin 0, Fin 1]])
   \<and> 0 < nrows (Tensor2 4 4 [[Fin 1, Fin 0, Fin 0, Fin 0], [Fin 0, Fin 1, Fin 0, Fin 0],
                           [Fin 0, Fin 0, Fin 1, Fin 0], [Fin 0, Fin 0, Fin 0, Fin 1]])
   \<and> compute_accuracy
        (Tensor2 4 4 [[Fin 1, Fin 0, Fin 0, Fin 0], [Fin 0, Fin 1, Fin 0, Fin 0],
                      [Fin 0, Fin 0, Fin 1, Fin 0], [Fin 0, Fin 0, Fin 0, Fin 1]]) 4
       = Inr (Fin 1)
   \<and> spec_acc_i (Tensor2 4 4 [[Fin 1, Fin 0, Fin 0, Fin 0], [Fin 0, Fin 1, Fin 0, Fin 0],
                             [Fin 0, Fin 0, Fin 1, Fin 0], [Fin 0, Fin 0, Fin 0, Fin 1]])
     + spec_acc_t (Tensor2 4 4 [[Fin 1, Fin 0, Fin 0, Fin 0], [Fin 0, Fin 1, Fin 0, Fin 0],
                               [Fin 0, Fin 0, Fin 1, Fin 0], [Fin 0, Fin 0, Fin 0, Fin 1]])
     = 8"
proof -
  let ?I = "Tensor2 4 4 [[Fin 1, Fin 0, Fin 0, Fin 0], [Fin 0, Fin 1, Fin 0, Fin 0],
                         [Fin 0, Fin 0, Fin 1, Fin 0], [Fin 0, Fin 0, Fin 0, Fin 1]]"
  have sq: "nrows ?I = ncols ?I" and pos: "0 < nrows ?I" by simp_all
  note t = compute_accuracy_formula[OF sq, of 4]
  have v: "compute_accuracy ?I 4 = Inr (Fin 1)"
    by (rule t[THEN conjunct2, THEN conjunct2, THEN conjunct1])
  have "Inr (fdiv (fdiv (Fin (real (spec_acc_i ?I + spec_acc_t ?I))) (Fin 2))
               (Fin (of_int 4))) = (Inr (Fin 1) :: error + fval)"
    using t[THEN conjunct1, THEN mp, OF pos] v by (rule trans[OF sym])
  then have "real (spec_acc_i ?I + spec_acc_t ?I) / 2 / 4 = 1"
    by (simp only: sum.inject fdiv.simps fval.inject of_int_numeral split: if_splits)
  then have k: "spec_acc_i ?I + spec_acc_t ?I = 8"
    by (rule count_from_quotient)
  show ?thesis by (intro conjI sq pos v k)
qed

end
